theory Spec2Isabelle
  imports Complex_Main
begin

section \<open>Errors (runtime/errors.py)\<close>

text \<open>
  The exceptions of \<^verbatim>\<open>halligan.runtime.errors\<close>, the executor's private
  \<^verbatim>\<open>_Break\<close>, and every other Python exception by class name. An exception that
  derives from \<^verbatim>\<open>BaseException\<close> only (\<^verbatim>\<open>KeyboardInterrupt\<close>,
  \<^verbatim>\<open>SystemExit\<close>) is kept apart, because \<^verbatim>\<open>except Exception\<close> does not
  catch it. The strings are the messages; where the source interpolates the
  \<^verbatim>\<open>repr\<close> of a value or of another exception, the message keeps the constant part.
\<close>

datatype exn =
    HalliganError string
  | ConfigError string
  | ParseError string
  | ValidationError string
  | UnsafeTargetError string
  | ToolError string
  | Break
  | PyException string string
  | PyBaseException string

text \<open>\<^verbatim>\<open>isinstance(e, HalliganError)\<close>: the five subclasses and the base class itself.\<close>

fun is_HalliganError :: "exn \<Rightarrow> bool" where
  "is_HalliganError (HalliganError m) = True"
| "is_HalliganError (ConfigError m) = True"
| "is_HalliganError (ParseError m) = True"
| "is_HalliganError (ValidationError m) = True"
| "is_HalliganError (UnsafeTargetError m) = True"
| "is_HalliganError (ToolError m) = True"
| "is_HalliganError Break = False"
| "is_HalliganError (PyException c m) = False"
| "is_HalliganError (PyBaseException c) = False"

fun is_ParseError :: "exn \<Rightarrow> bool" where
  "is_ParseError (ParseError m) = True"
| "is_ParseError e = False"

fun is_ValidationError :: "exn \<Rightarrow> bool" where
  "is_ValidationError (ValidationError m) = True"
| "is_ValidationError e = False"

fun is_ToolError :: "exn \<Rightarrow> bool" where
  "is_ToolError (ToolError m) = True"
| "is_ToolError e = False"

fun is_UnsafeTargetError :: "exn \<Rightarrow> bool" where
  "is_UnsafeTargetError (UnsafeTargetError m) = True"
| "is_UnsafeTargetError e = False"

text \<open>\<^verbatim>\<open>isinstance(e, Exception)\<close>: everything but the bare \<^verbatim>\<open>BaseException\<close>s.\<close>

fun is_Exception :: "exn \<Rightarrow> bool" where
  "is_Exception (PyBaseException c) = False"
| "is_Exception e = True"

section \<open>Strings\<close>

text \<open>
  Python strings are sequences of code points; the model has the code points below 256.
  \<^verbatim>\<open>str.isspace\<close> on that range: tab to carriage return, the four separators
  28 to 31, the space, NEL (133) and the no-break space (160).
\<close>

definition isspace :: "char \<Rightarrow> bool" where
  "isspace c = (let n = (of_char c :: nat) in
     (9 \<le> n \<and> n \<le> 13) \<or> (28 \<le> n \<and> n \<le> 32) \<or> n = 133 \<or> n = 160)"

definition str_strip :: "string \<Rightarrow> string" where
  "str_strip s = rev (dropWhile isspace (rev (dropWhile isspace s)))"

text \<open>\<^verbatim>\<open>str.lower\<close> on the same range: A to Z, and the Latin-1 capitals 192 to 222 but 215.\<close>

definition lower_char :: "char \<Rightarrow> char" where
  "lower_char c = (let n = (of_char c :: nat) in
     if (65 \<le> n \<and> n \<le> 90) \<or> (192 \<le> n \<and> n \<le> 222 \<and> n \<noteq> 215)
     then char_of (n + 32) else c)"

definition str_lower :: "string \<Rightarrow> string" where
  "str_lower s = map lower_char s"

definition startswith :: "string \<Rightarrow> string \<Rightarrow> bool" where
  "startswith s p = (take (length p) s = p)"

section \<open>Runtime configuration (runtime/config.py)\<close>

text \<open>
  \<^verbatim>\<open>urllib.parse.urlparse\<close> belongs to the standard library, so it is a parameter:
  \<open>None\<close> when it raises, else the two components the code reads. \<^verbatim>\<open>hostname\<close>
  is \<open>None\<close> when the URL has no network location.
\<close>

record parsed_url =
  scheme :: string
  hostname :: "string option"

type_synonym urlparse = "string \<Rightarrow> parsed_url option"

definition DEFAULT_ALLOWED_BENCHMARK_HOSTS :: "string set" where
  "DEFAULT_ALLOWED_BENCHMARK_HOSTS =
     {''localhost'', ''127.0.0.1'', ''0.0.0.0'', ''host.docker.internal''}"

definition is_local_http_url :: "urlparse \<Rightarrow> string \<Rightarrow> bool" where
  "is_local_http_url up url =
     (case up url of
        None \<Rightarrow> False
      | Some parsed \<Rightarrow>
          if scheme parsed \<notin> {''http'', ''https''} then False
          else (let host = str_lower (str_strip
                        (case hostname parsed of None \<Rightarrow> [] | Some h \<Rightarrow> h))
                in host \<in> DEFAULT_ALLOWED_BENCHMARK_HOSTS))"

record RuntimeConfig =
  openai_api_key :: "string option"
  browser_url :: "string option"
  benchmark_url :: "string option"
  benchmark_http_url :: "string option"
  allow_nonlocal_benchmark :: bool

text \<open>Truth value of an optional string: \<^verbatim>\<open>None\<close> and the empty string are false.\<close>

fun truthy_opt :: "string option \<Rightarrow> bool" where
  "truthy_opt None = False"
| "truthy_opt (Some s) = (s \<noteq> [])"

definition validate :: "urlparse \<Rightarrow> RuntimeConfig \<Rightarrow> exn + unit" where
  "validate up cfg =
     (if truthy_opt (benchmark_url cfg) \<and> \<not> allow_nonlocal_benchmark cfg
         \<and> \<not> is_local_http_url up (the (benchmark_url cfg))
      then Inl (UnsafeTargetError ''Detected non-local `BENCHMARK_URL`.'')
      else if truthy_opt (benchmark_http_url cfg) \<and> \<not> allow_nonlocal_benchmark cfg
         \<and> \<not> is_local_http_url up (the (benchmark_http_url cfg))
      then Inl (UnsafeTargetError ''Detected non-local `BENCHMARK_HTTP_URL`.'')
      else Inr ())"

text \<open>
  A local http/https URL in the words of the specification: the parser returns, the
  scheme is one of the two, and the host is one of the four names.
\<close>

definition spec_local_url :: "urlparse \<Rightarrow> string \<Rightarrow> bool" where
  "spec_local_url up url =
     (\<exists>p. up url = Some p \<and> (scheme p = ''http'' \<or> scheme p = ''https'') \<and>
        (case hostname p of None \<Rightarrow> False
         | Some h \<Rightarrow> h \<in> {''localhost'', ''127.0.0.1'', ''0.0.0.0'', ''host.docker.internal''}))"

text \<open>
  The same with the host name first trimmed of surrounding white space and put in lower
  case, and an absent host name read as the empty string: the host of the amended
  statement.
\<close>

definition local_url :: "urlparse \<Rightarrow> string \<Rightarrow> bool" where
  "local_url up url =
     (\<exists>p. up url = Some p \<and> (scheme p = ''http'' \<or> scheme p = ''https'') \<and>
        str_lower (str_strip (case hostname p of None \<Rightarrow> [] | Some h \<Rightarrow> h))
          \<in> {''localhost'', ''127.0.0.1'', ''0.0.0.0'', ''host.docker.internal''})"

text \<open>A benchmark URL that is set (not \<^verbatim>\<open>None\<close>, not empty) and not local.\<close>

definition unsafe_target :: "urlparse \<Rightarrow> string option \<Rightarrow> bool" where
  "unsafe_target up u = (case u of None \<Rightarrow> False | Some s \<Rightarrow> s \<noteq> [] \<and> \<not> local_url up s)"

lemma is_local_http_url_iff: "is_local_http_url up url = local_url up url"
  by (cases "up url")
     (auto simp: is_local_http_url_def local_url_def DEFAULT_ALLOWED_BENCHMARK_HOSTS_def Let_def)

lemma truthy_unsafe:
  "(truthy_opt u \<and> \<not> is_local_http_url up (the u)) = unsafe_target up u"
  by (cases u) (auto simp: unsafe_target_def is_local_http_url_iff)

text \<open>
  C6, amended. \<^verbatim>\<open>RuntimeConfig.validate()\<close> raises \<^verbatim>\<open>UnsafeTargetError\<close> exactly when
  the override is off and \<^verbatim>\<open>benchmark_url\<close> or \<^verbatim>\<open>benchmark_http_url\<close> is set (not
  \<^verbatim>\<open>None\<close>, not empty) to a URL that cannot be parsed, or whose scheme is neither http
  nor https, or whose host name, once trimmed of surrounding white space and put in lower
  case, is not one of the four names; in every other case (each set URL is local in that
  sense, or the override is on) it returns without raising.
\<close>

theorem validate_safety_gate:
  "((\<exists>m. validate up cfg = Inl (UnsafeTargetError m)) =
        (\<not> allow_nonlocal_benchmark cfg \<and>
         (unsafe_target up (benchmark_url cfg) \<or> unsafe_target up (benchmark_http_url cfg))))
   \<and> ((validate up cfg = Inr ()) =
        (allow_nonlocal_benchmark cfg \<or>
         (\<not> unsafe_target up (benchmark_url cfg) \<and> \<not> unsafe_target up (benchmark_http_url cfg))))"
  using truthy_unsafe [of "benchmark_url cfg" up] truthy_unsafe [of "benchmark_http_url cfg" up]
  by (auto simp: validate_def)

text \<open>
  The three runs of \<^verbatim>\<open>tests/test_config.py\<close>, with a parser that knows the two
  URLs of the tests.
\<close>

theorem validate_safety_gate_witness:
  "validate (\<lambda>u. if u = ''http://127.0.0.1:3334''
                 then Some \<lparr>scheme = ''http'', hostname = Some ''127.0.0.1''\<rparr>
                 else Some \<lparr>scheme = ''http'', hostname = Some ''example.com''\<rparr>)
     \<lparr>openai_api_key = None, browser_url = None,
      benchmark_url = Some ''http://127.0.0.1:3334'',
      benchmark_http_url = Some ''http://127.0.0.1:3334'',
      allow_nonlocal_benchmark = False\<rparr> = Inr ()
   \<and> (\<exists>m. validate (\<lambda>u. if u = ''http://127.0.0.1:3334''
                 then Some \<lparr>scheme = ''http'', hostname = Some ''127.0.0.1''\<rparr>
                 else Some \<lparr>scheme = ''http'', hostname = Some ''example.com''\<rparr>)
     \<lparr>openai_api_key = None, browser_url = None,
      benchmark_url = Some ''http://example.com'',
      benchmark_http_url = Some ''http://example.com'',
      allow_nonlocal_benchmark = False\<rparr> = Inl (UnsafeTargetError m))
   \<and> validate (\<lambda>u. if u = ''http://127.0.0.1:3334''
                 then Some \<lparr>scheme = ''http'', hostname = Some ''127.0.0.1''\<rparr>
                 else Some \<lparr>scheme = ''http'', hostname = Some ''example.com''\<rparr>)
     \<lparr>openai_api_key = None, browser_url = None,
      benchmark_url = Some ''http://example.com'',
      benchmark_http_url = Some ''http://example.com'',
      allow_nonlocal_benchmark = True\<rparr> = Inr ()"
proof -
  let ?up = "\<lambda>u. if u = ''http://127.0.0.1:3334''
                 then Some \<lparr>scheme = ''http'', hostname = Some ''127.0.0.1''\<rparr>
                 else Some \<lparr>scheme = ''http'', hostname = Some ''example.com''\<rparr>"
  have loc: "\<not> unsafe_target ?up (Some ''http://127.0.0.1:3334'')"
    by (simp add: unsafe_target_def local_url_def str_lower_def str_strip_def
          lower_char_def isspace_def Let_def)
  have ext: "unsafe_target ?up (Some ''http://example.com'')"
    by (simp add: unsafe_target_def local_url_def str_lower_def str_strip_def
          lower_char_def isspace_def Let_def)
  show ?thesis
    using loc ext
      validate_safety_gate [of ?up "\<lparr>openai_api_key = None, browser_url = None,
        benchmark_url = Some ''http://127.0.0.1:3334'',
        benchmark_http_url = Some ''http://127.0.0.1:3334'',
        allow_nonlocal_benchmark = False\<rparr>"]
      validate_safety_gate [of ?up "\<lparr>openai_api_key = None, browser_url = None,
        benchmark_url = Some ''http://example.com'',
        benchmark_http_url = Some ''http://example.com'',
        allow_nonlocal_benchmark = False\<rparr>"]
      validate_safety_gate [of ?up "\<lparr>openai_api_key = None, browser_url = None,
        benchmark_url = Some ''http://example.com'',
        benchmark_http_url = Some ''http://example.com'',
        allow_nonlocal_benchmark = True\<rparr>"]
    by simp
qed

text \<open>
  C6 as it is worded fails. \<^verbatim>\<open>urlparse('http://localhost /x').hostname\<close> is
  \<^verbatim>\<open>'localhost '\<close>, with the space: not one of the four names, so the URL is not local in
  the words of the specification, and the override is off; yet \<^verbatim>\<open>validate()\<close> trims
  the host name before it compares, and returns.
\<close>

theorem validate_untrimmed_host_counterexample:
  "\<not> spec_local_url
       (\<lambda>u. Some \<lparr>scheme = ''http'', hostname = Some ''localhost ''\<rparr>)
       ''http://localhost /x''
   \<and> \<not> allow_nonlocal_benchmark
       \<lparr>openai_api_key = None, browser_url = None,
        benchmark_url = Some ''http://localhost /x'', benchmark_http_url = None,
        allow_nonlocal_benchmark = False\<rparr>
   \<and> validate (\<lambda>u. Some \<lparr>scheme = ''http'', hostname = Some ''localhost ''\<rparr>)
       \<lparr>openai_api_key = None, browser_url = None,
        benchmark_url = Some ''http://localhost /x'', benchmark_http_url = None,
        allow_nonlocal_benchmark = False\<rparr> = Inr ()"
  by (simp add: spec_local_url_def validate_def is_local_http_url_def
        DEFAULT_ALLOWED_BENCHMARK_HOSTS_def str_lower_def str_strip_def
        lower_char_def isspace_def Let_def)

section \<open>Python values\<close>

text \<open>
  The values the runtime handles: what \<^verbatim>\<open>json.loads\<close> returns (\<^verbatim>\<open>None\<close>, booleans,
  integers, floats, strings, lists, and dictionaries with string keys, in insertion
  order), and every other object (a frame, a point, a choice, an image, a function) as
  an opaque reference: its class name and an identity. A finite float is the rational
  it denotes.
\<close>

datatype pyval =
    VNone
  | VBool bool
  | VInt int
  | VFloat rat
  | VStr string
  | VList "pyval list"
  | VDict "(string \<times> pyval) list"
  | VObj string nat

text \<open>\<^verbatim>\<open>type(value).__name__\<close>.\<close>

fun class_name :: "pyval \<Rightarrow> string" where
  "class_name VNone = ''NoneType''"
| "class_name (VBool b) = ''bool''"
| "class_name (VInt i) = ''int''"
| "class_name (VFloat r) = ''float''"
| "class_name (VStr s) = ''str''"
| "class_name (VList xs) = ''list''"
| "class_name (VDict kvs) = ''dict''"
| "class_name (VObj c i) = c"

text \<open>
  \<^verbatim>\<open>isinstance(v, int)\<close>: \<^verbatim>\<open>bool\<close> is a subclass of \<^verbatim>\<open>int\<close>, so a boolean passes.
  \<open>int_val\<close> is the integer such a value counts as in comparisons and as an index.
\<close>

fun isinstance_int :: "pyval \<Rightarrow> bool" where
  "isinstance_int (VInt i) = True"
| "isinstance_int (VBool b) = True"
| "isinstance_int v = False"

fun int_val :: "pyval \<Rightarrow> int" where
  "int_val (VInt i) = i"
| "int_val (VBool b) = (if b then 1 else 0)"
| "int_val v = 0"

text \<open>\<^verbatim>\<open>d.get(k, default)\<close> and \<^verbatim>\<open>d.get(k)\<close> on a dictionary's items.\<close>

definition dget_default :: "(string \<times> pyval) list \<Rightarrow> string \<Rightarrow> pyval \<Rightarrow> pyval" where
  "dget_default kvs k d = (case map_of kvs k of None \<Rightarrow> d | Some v \<Rightarrow> v)"

definition dget :: "(string \<times> pyval) list \<Rightarrow> string \<Rightarrow> pyval" where
  "dget kvs k = dget_default kvs k VNone"

text \<open>Sequencing of computations that may raise: the first error ends the run.\<close>

fun bindE :: "'e + 'a \<Rightarrow> ('a \<Rightarrow> 'e + 'b) \<Rightarrow> 'e + 'b" where
  "bindE (Inl e) f = Inl e"
| "bindE (Inr x) f = f x"

text \<open>\<^verbatim>\<open>str(n)\<close> for an index in a path.\<close>

fun show_nat :: "nat \<Rightarrow> string" where
  "show_nat n = (if n < 10 then [char_of (48 + n)]
                 else show_nat (n div 10) @ [char_of (48 + n mod 10)])"

declare show_nat.simps [simp del]

section \<open>Schema validators (runtime/schemas.py)\<close>

definition require_dict :: "pyval \<Rightarrow> string \<Rightarrow> exn + (string \<times> pyval) list" where
  "require_dict v path =
     (case v of VDict kvs \<Rightarrow> Inr kvs
      | _ \<Rightarrow> Inl (ValidationError (''Expected object at '' @ path @ '', got '' @ class_name v)))"

definition require_list :: "pyval \<Rightarrow> string \<Rightarrow> exn + pyval list" where
  "require_list v path =
     (case v of VList xs \<Rightarrow> Inr xs
      | _ \<Rightarrow> Inl (ValidationError (''Expected array at '' @ path @ '', got '' @ class_name v)))"

definition require_str :: "pyval \<Rightarrow> string \<Rightarrow> exn + string" where
  "require_str v path =
     (case v of VStr s \<Rightarrow> Inr s
      | _ \<Rightarrow> Inl (ValidationError (''Expected string at '' @ path @ '', got '' @ class_name v)))"

text \<open>
  \<^verbatim>\<open>_require_int\<close> returns the value it was given, so a boolean comes back as the
  boolean; \<open>int_val\<close> reads it where the callers compare it.
\<close>

definition require_int :: "pyval \<Rightarrow> string \<Rightarrow> exn + pyval" where
  "require_int v path =
     (if \<not> isinstance_int v
      then Inl (ValidationError (''Expected integer at '' @ path @ '', got '' @ class_name v))
      else Inr v)"

definition require_bool :: "pyval \<Rightarrow> string \<Rightarrow> exn + bool" where
  "require_bool v path =
     (case v of VBool b \<Rightarrow> Inr b
      | _ \<Rightarrow> Inl (ValidationError (''Expected boolean at '' @ path @ '', got '' @ class_name v)))"

definition require_one_of :: "string \<Rightarrow> string set \<Rightarrow> string \<Rightarrow> exn + string" where
  "require_one_of v allowed path =
     (if v \<notin> allowed then Inl (ValidationError (''Invalid value at '' @ path))
      else Inr v)"

definition require_optional_int :: "pyval \<Rightarrow> string \<Rightarrow> exn + pyval" where
  "require_optional_int v path = (if v = VNone then Inr VNone else require_int v path)"

subsection \<open>Stage 1\<close>

record Stage1Relation =
  src :: pyval
  dst :: pyval
  relationship :: string

record Stage1Result =
  descriptions :: "string list"
  relations :: "Stage1Relation list"
  objective :: string

text \<open>The loop over \<^verbatim>\<open>enumerate(descriptions)\<close>, from index \<open>i\<close> on.\<close>

fun validate_descriptions :: "nat \<Rightarrow> pyval list \<Rightarrow> exn + string list" where
  "validate_descriptions i [] = Inr []"
| "validate_descriptions i (d # ds) =
     bindE (require_str d (''$.descriptions['' @ show_nat i @ '']'')) (\<lambda>s.
     bindE (validate_descriptions (Suc i) ds) (\<lambda>out.
     Inr (str_strip s # out)))"

definition validate_relation :: "int \<Rightarrow> nat \<Rightarrow> pyval \<Rightarrow> exn + Stage1Relation" where
  "validate_relation frames i rel =
     (let p = ''$.relations['' @ show_nat i @ '']'' in
      bindE (require_dict rel p) (\<lambda>rel_obj.
      bindE (require_int (dget rel_obj ''from'') (p @ ''.from'')) (\<lambda>s.
      bindE (require_optional_int (dget rel_obj ''to'') (p @ ''.to'')) (\<lambda>d.
      bindE (require_str (dget_default rel_obj ''relationship'' (VStr [])) (p @ ''.relationship''))
        (\<lambda>r.
      if \<not> (0 \<le> int_val s \<and> int_val s < frames)
      then Inl (ValidationError (p @ ''.from out of range''))
      else if d \<noteq> VNone \<and> \<not> (0 \<le> int_val d \<and> int_val d < frames)
      then Inl (ValidationError (p @ ''.to out of range''))
      else Inr \<lparr>src = s, dst = d, relationship = str_strip r\<rparr>)))))"

fun validate_relations :: "int \<Rightarrow> nat \<Rightarrow> pyval list \<Rightarrow> exn + Stage1Relation list" where
  "validate_relations frames i [] = Inr []"
| "validate_relations frames i (rel # rels) =
     bindE (validate_relation frames i rel) (\<lambda>r.
     bindE (validate_relations frames (Suc i) rels) (\<lambda>out.
     Inr (r # out)))"

definition validate_stage1 :: "pyval \<Rightarrow> int \<Rightarrow> exn + Stage1Result" where
  "validate_stage1 data frames =
     bindE (require_dict data ''$'') (\<lambda>obj.
     bindE (require_list (dget obj ''descriptions'') ''$.descriptions'') (\<lambda>ds.
     if int (length ds) \<noteq> frames
     then Inl (ValidationError ''$.descriptions length mismatch'')
     else
     bindE (validate_descriptions 0 ds) (\<lambda>desc_out.
     bindE (require_list (dget_default obj ''relations'' (VList [])) ''$.relations'') (\<lambda>rels.
     bindE (validate_relations frames 0 rels) (\<lambda>rel_out.
     bindE (require_str (dget obj ''objective'') ''$.objective'') (\<lambda>ob.
     if str_strip ob = []
     then Inl (ValidationError ''$.objective must be non-empty'')
     else Inr \<lparr>descriptions = desc_out, relations = rel_out,
               objective = str_strip ob\<rparr>))))))"

subsection \<open>Stage 2\<close>

record Stage2Action =
  atype :: string
  payload :: "(string \<times> pyval) list"

record Stage2Plan =
  actions :: "Stage2Action list"

definition POSITIONS :: "string set" where
  "POSITIONS = {''up'', ''down'', ''left'', ''right'', ''all''}"

text \<open>
  The two tag sets \<^verbatim>\<open>_FRAME_INTERACTABLES\<close> and \<^verbatim>\<open>_ELEMENT_INTERACTABLES\<close> are the
  member names of two enumerations of \<^verbatim>\<open>halligan.utils.constants\<close>, which is not among
  the sources: they are the parameters \<open>fi\<close> and \<open>ei\<close>.
\<close>

definition validate_action ::
  "string set \<Rightarrow> string set \<Rightarrow> int \<Rightarrow> nat \<Rightarrow> pyval \<Rightarrow> exn + Stage2Action" where
  "validate_action fi ei frames i item =
     (let p = ''$.actions['' @ show_nat i @ '']'' in
      bindE (require_dict item p) (\<lambda>action_obj.
      bindE (require_str (dget action_obj ''type'') (p @ ''.type'')) (\<lambda>t0.
      bindE (require_one_of t0 {''set_frame'', ''split_frame'', ''grid_frame'', ''get_element''}
               (p @ ''.type'')) (\<lambda>action_type.
      bindE (require_int (dget action_obj ''frame'') (p @ ''.frame'')) (\<lambda>frame_id.
      if \<not> (0 \<le> int_val frame_id \<and> int_val frame_id < frames)
      then Inl (ValidationError (p @ ''.frame out of range''))
      else if action_type = ''set_frame'' then
        bindE (require_str (dget action_obj ''interactable'') (p @ ''.interactable''))
          (\<lambda>interactable.
        bindE (require_one_of interactable fi (p @ ''.interactable'')) (\<lambda>_.
        Inr \<lparr>atype = ''set_frame'',
             payload = [(''frame'', frame_id), (''interactable'', VStr interactable)]\<rparr>))
      else if action_type = ''split_frame'' then
        bindE (require_int (dget action_obj ''rows'') (p @ ''.rows'')) (\<lambda>rows.
        bindE (require_int (dget action_obj ''columns'') (p @ ''.columns'')) (\<lambda>columns.
        bindE (require_str (dget action_obj ''mark_as'') (p @ ''.mark_as'')) (\<lambda>mark_as.
        bindE (require_one_of mark_as fi (p @ ''.mark_as'')) (\<lambda>_.
        if int_val rows \<le> 0 \<or> int_val columns \<le> 0
        then Inl (ValidationError (p @ '' rows/columns must be positive''))
        else Inr \<lparr>atype = ''split_frame'',
                  payload = [(''frame'', frame_id), (''rows'', rows), (''columns'', columns),
                             (''mark_as'', VStr mark_as)]\<rparr>))))
      else if action_type = ''grid_frame'' then
        bindE (require_int (dget action_obj ''tiles'') (p @ ''.tiles'')) (\<lambda>tiles.
        bindE (require_str (dget action_obj ''mark_as'') (p @ ''.mark_as'')) (\<lambda>mark_as.
        bindE (require_one_of mark_as ei (p @ ''.mark_as'')) (\<lambda>_.
        if int_val tiles \<le> 0
        then Inl (ValidationError (p @ ''.tiles must be positive''))
        else Inr \<lparr>atype = ''grid_frame'',
                  payload = [(''frame'', frame_id), (''tiles'', tiles),
                             (''mark_as'', VStr mark_as)]\<rparr>)))
      else if action_type = ''get_element'' then
        bindE (require_str (dget action_obj ''position'') (p @ ''.position'')) (\<lambda>position.
        bindE (require_one_of position POSITIONS (p @ ''.position'')) (\<lambda>_.
        bindE (require_str (dget action_obj ''details'') (p @ ''.details'')) (\<lambda>details0.
        if str_strip details0 = []
        then Inl (ValidationError (p @ ''.details must be non-empty''))
        else
        bindE (require_str (dget action_obj ''mark_as'') (p @ ''.mark_as'')) (\<lambda>mark_as.
        bindE (require_one_of mark_as ei (p @ ''.mark_as'')) (\<lambda>_.
        Inr \<lparr>atype = ''get_element'',
             payload = [(''frame'', frame_id), (''position'', VStr position),
                        (''details'', VStr (str_strip details0)),
                        (''mark_as'', VStr mark_as)]\<rparr>)))))
      else Inl (ValidationError (''Unknown action type at '' @ p @ ''.type'')))))))"

fun validate_actions ::
  "string set \<Rightarrow> string set \<Rightarrow> int \<Rightarrow> nat \<Rightarrow> pyval list \<Rightarrow> exn + Stage2Action list" where
  "validate_actions fi ei frames i [] = Inr []"
| "validate_actions fi ei frames i (item # items) =
     bindE (validate_action fi ei frames i item) (\<lambda>a.
     bindE (validate_actions fi ei frames (Suc i) items) (\<lambda>out.
     Inr (a # out)))"

definition validate_stage2 ::
  "string set \<Rightarrow> string set \<Rightarrow> pyval \<Rightarrow> int \<Rightarrow> exn + Stage2Plan" where
  "validate_stage2 fi ei data frames =
     bindE (require_dict data ''$'') (\<lambda>obj.
     bindE (require_list (dget obj ''actions'') ''$.actions'') (\<lambda>actions_raw.
     bindE (validate_actions fi ei frames 0 actions_raw) (\<lambda>acts.
     Inr \<lparr>actions = acts\<rparr>)))"

subsection \<open>Stage 3\<close>

record Stage3Program =
  steps :: "pyval list"

text \<open>
  The loop of \<^verbatim>\<open>validate_stage3\<close>. \<^verbatim>\<open>_require_dict\<close> has raised for a step that is
  not a dictionary before \<^verbatim>\<open>step.get\<close> is reached.
\<close>

fun validate_steps :: "nat \<Rightarrow> pyval list \<Rightarrow> exn + unit" where
  "validate_steps i [] = Inr ()"
| "validate_steps i (step # rest) =
     bindE (require_dict step (''$.steps['' @ show_nat i @ '']'')) (\<lambda>kvs.
     bindE (require_str (dget kvs ''op'') (''$.steps['' @ show_nat i @ ''].op'')) (\<lambda>_.
     validate_steps (Suc i) rest))"

definition validate_stage3 :: "pyval \<Rightarrow> exn + Stage3Program" where
  "validate_stage3 data =
     bindE (require_dict data ''$'') (\<lambda>obj.
     bindE (require_list (dget obj ''steps'') ''$.steps'') (\<lambda>ss.
     bindE (validate_steps 0 ss) (\<lambda>_.
     Inr \<lparr>steps = ss\<rparr>)))"

text \<open>
  C10. The validators accept a JSON boolean where an integer is required:
  \<^verbatim>\<open>_require_int\<close> lets every boolean through, \<^verbatim>\<open>validate_stage2\<close> accepts a
  \<^verbatim>\<open>split_frame\<close> action whose \<^verbatim>\<open>frame\<close> is \<^verbatim>\<open>true\<close> (with two frames: as an
  integer it is 1, within range), and \<^verbatim>\<open>validate_stage1\<close> accepts a relation whose
  \<^verbatim>\<open>from\<close> is \<^verbatim>\<open>false\<close> (frame 0). Neither raises a \<^verbatim>\<open>ValidationError\<close>.
\<close>

theorem validators_accept_booleans:
  "require_int (VBool b) path = Inr (VBool b)
   \<and> int_val (VBool True) = 1 \<and> int_val (VBool False) = 0
   \<and> validate_stage2 (insert ''SELECTABLE'' fi) ei
        (VDict [(''actions'', VList [VDict [(''type'', VStr ''split_frame''),
            (''frame'', VBool True), (''rows'', VInt 2), (''columns'', VInt 2),
            (''mark_as'', VStr ''SELECTABLE'')]])]) 2
      = Inr \<lparr>actions = [\<lparr>atype = ''split_frame'',
           payload = [(''frame'', VBool True), (''rows'', VInt 2), (''columns'', VInt 2),
                      (''mark_as'', VStr ''SELECTABLE'')]\<rparr>]\<rparr>
   \<and> validate_stage1
        (VDict [(''descriptions'', VList [VStr ''d0'']),
                (''relations'', VList [VDict [(''from'', VBool False)]]),
                (''objective'', VStr ''x'')]) 1
      = Inr \<lparr>descriptions = [''d0''],
             relations = [\<lparr>src = VBool False, dst = VNone, relationship = []\<rparr>],
             objective = ''x''\<rparr>"
proof -
  have ri: "require_int (VBool b) path = Inr (VBool b)"
    by (simp add: require_int_def)
  have s2: "validate_stage2 (insert ''SELECTABLE'' fi) ei
        (VDict [(''actions'', VList [VDict [(''type'', VStr ''split_frame''),
            (''frame'', VBool True), (''rows'', VInt 2), (''columns'', VInt 2),
            (''mark_as'', VStr ''SELECTABLE'')]])]) 2
      = Inr \<lparr>actions = [\<lparr>atype = ''split_frame'',
           payload = [(''frame'', VBool True), (''rows'', VInt 2), (''columns'', VInt 2),
                      (''mark_as'', VStr ''SELECTABLE'')]\<rparr>]\<rparr>"
    by (simp add: validate_stage2_def validate_action_def require_dict_def require_list_def
          require_str_def require_int_def require_one_of_def dget_def dget_default_def Let_def)
  have s1: "validate_stage1
        (VDict [(''descriptions'', VList [VStr ''d0'']),
                (''relations'', VList [VDict [(''from'', VBool False)]]),
                (''objective'', VStr ''x'')]) 1
      = Inr \<lparr>descriptions = [''d0''],
             relations = [\<lparr>src = VBool False, dst = VNone, relationship = []\<rparr>],
             objective = ''x''\<rparr>"
    by (simp add: validate_stage1_def validate_relation_def require_dict_def require_list_def
          require_str_def require_int_def require_optional_int_def dget_def dget_default_def
          Let_def str_strip_def isspace_def)
  show ?thesis using ri s2 s1 by simp
qed

section \<open>Response parser (runtime/parser.py)\<close>

text \<open>
  \<^verbatim>\<open>json.loads\<close> belongs to the standard library, so it is a parameter: \<open>None\<close> when
  it raises, else the decoded value.
\<close>

type_synonym json_loads = "string \<Rightarrow> pyval option"

text \<open>
  \<^verbatim>\<open>_JSON_FENCE_RE.search(raw)\<close>, with the pattern
  \<^verbatim>\<open>```(?:json)?\s*(\{.*?\})\s*```\<close> under \<^verbatim>\<open>DOTALL | IGNORECASE\<close>.
  The pattern leaves the matcher no choice but the length of the lazy group: after the
  three backquotes, \<^verbatim>\<open>json\<close> is taken if it is there (without it the next character
  would have to be a space or the brace), the white space is skipped up to the brace,
  and the group ends at the first closing brace that white space and three backquotes
  follow. \<open>match_close\<close> is the tail \<^verbatim>\<open>\s*```\<close>, \<open>find_body\<close> the rest of the group
  after its opening brace, \<open>fence_at\<close> a match that starts at the head of the string,
  and \<open>fence_search\<close> tries the start positions from left to right and gives group 1.
\<close>

definition match_close :: "string \<Rightarrow> bool" where
  "match_close s = startswith (dropWhile isspace s) ''```''"

fun find_body :: "string \<Rightarrow> string option" where
  "find_body [] = None"
| "find_body (c # cs) =
     (if c = CHR ''}'' \<and> match_close cs then Some [c]
      else map_option ((#) c) (find_body cs))"

definition fence_at :: "string \<Rightarrow> string option" where
  "fence_at s =
     (if \<not> startswith s ''```'' then None
      else (let r = drop 3 s;
                r1 = (if str_lower (take 4 r) = ''json'' then drop 4 r else r)
            in case dropWhile isspace r1 of
                 [] \<Rightarrow> None
               | c # cs \<Rightarrow> if c = CHR ''{'' then map_option ((#) c) (find_body cs) else None))"

fun fence_search :: "string \<Rightarrow> string option" where
  "fence_search [] = None"
| "fence_search (c # cs) =
     (case fence_at (c # cs) of Some g \<Rightarrow> Some g | None \<Rightarrow> fence_search cs)"

text \<open>\<^verbatim>\<open>str.find\<close> and \<^verbatim>\<open>str.rfind\<close> of one character: the index, or -1.\<close>

fun find_from :: "char \<Rightarrow> string \<Rightarrow> int \<Rightarrow> int" where
  "find_from c [] i = - 1"
| "find_from c (x # xs) i = (if x = c then i else find_from c xs (i + 1))"

fun rfind_from :: "char \<Rightarrow> string \<Rightarrow> int \<Rightarrow> int" where
  "rfind_from c [] i = - 1"
| "rfind_from c (x # xs) i =
     (let r = rfind_from c xs (i + 1) in if r \<noteq> - 1 then r else if x = c then i else - 1)"

text \<open>
  The third candidate: \<^verbatim>\<open>raw[start : end + 1]\<close> from the first opening brace to the
  last closing one, when both exist in that order.
\<close>

definition brace_slice :: "string \<Rightarrow> string option" where
  "brace_slice raw =
     (let start = find_from (CHR ''{'') raw 0; end = rfind_from (CHR ''}'') raw 0
      in if start \<noteq> - 1 \<and> end \<noteq> - 1 \<and> end > start
         then Some (take (nat (end + 1 - start)) (drop (nat start) raw))
         else None)"

definition parse_json_from_response :: "json_loads \<Rightarrow> string option \<Rightarrow> exn + pyval" where
  "parse_json_from_response loads text =
     (case text of
        None \<Rightarrow> Inl (ParseError ''Empty response (None)'')
      | Some t \<Rightarrow>
          (let raw = str_strip t in
           if raw = [] then Inl (ParseError ''Empty response'')
           else case loads raw of
                  Some v \<Rightarrow> Inr v
                | None \<Rightarrow>
                   (case fence_search raw of
                      Some g \<Rightarrow>
                        (case loads (str_strip g) of
                           Some v \<Rightarrow> Inr v
                         | None \<Rightarrow> Inl (ParseError ''Failed to parse fenced JSON''))
                    | None \<Rightarrow>
                        (case brace_slice raw of
                           Some candidate \<Rightarrow>
                             (case loads candidate of
                                Some v \<Rightarrow> Inr v
                              | None \<Rightarrow> Inl (ParseError ''Failed to parse extracted JSON''))
                         | None \<Rightarrow> Inl (ParseError ''No JSON object found in response'')))))"

text \<open>
  The claim's reading of the parser, for comparison with the code: the three candidates
  in order (the trimmed text, the trimmed group of the first fenced block, the brace
  slice), and the value of the first one that decodes; \<open>None\<close> stands for raising
  \<^verbatim>\<open>ParseError\<close>.
\<close>

definition spec_candidates :: "string \<Rightarrow> string list" where
  "spec_candidates raw =
     [raw]
     @ (case fence_search raw of None \<Rightarrow> [] | Some g \<Rightarrow> [str_strip g])
     @ (case brace_slice raw of None \<Rightarrow> [] | Some c \<Rightarrow> [c])"

fun first_valid :: "json_loads \<Rightarrow> string list \<Rightarrow> pyval option" where
  "first_valid loads [] = None"
| "first_valid loads (c # cs) =
     (case loads c of Some v \<Rightarrow> Some v | None \<Rightarrow> first_valid loads cs)"

definition spec_parse :: "json_loads \<Rightarrow> string option \<Rightarrow> pyval option" where
  "spec_parse loads text =
     (case text of
        None \<Rightarrow> None
      | Some t \<Rightarrow> if str_strip t = [] then None
                  else first_valid loads (spec_candidates (str_strip t)))"

text \<open>
  The case the code treats otherwise: the direct attempt failed, a fenced block
  matches, and its group does not decode.
\<close>

definition fence_blocks :: "json_loads \<Rightarrow> string \<Rightarrow> bool" where
  "fence_blocks loads t =
     (let raw = str_strip t in
      raw \<noteq> [] \<and> loads raw = None \<and>
      (case fence_search raw of None \<Rightarrow> False | Some g \<Rightarrow> loads (str_strip g) = None))"

text \<open>A decoder for the examples: it knows one document and raises on every other text.\<close>

definition loads_only :: "string \<Rightarrow> pyval \<Rightarrow> json_loads" where
  "loads_only doc v s = (if s = doc then Some v else None)"

lemma parse_agrees:
  "\<not> fence_blocks loads t \<Longrightarrow>
     (case spec_parse loads (Some t) of
        Some v \<Rightarrow> parse_json_from_response loads (Some t) = Inr v
      | None \<Rightarrow> (\<exists>m. parse_json_from_response loads (Some t) = Inl (ParseError m)))"
  by (auto simp: fence_blocks_def spec_parse_def spec_candidates_def
        parse_json_from_response_def Let_def split: option.splits)

lemma parse_blocked:
  "fence_blocks loads t \<Longrightarrow>
     parse_json_from_response loads (Some t) = Inl (ParseError ''Failed to parse fenced JSON'')"
  by (auto simp: fence_blocks_def parse_json_from_response_def Let_def split: option.splits)

lemma parse_raises_ParseError:
  "parse_json_from_response loads text = Inl e \<Longrightarrow> is_ParseError e"
  by (auto simp: parse_json_from_response_def Let_def split: option.splits if_splits)

text \<open>
  C3, as the claim states it, fails. On the text \<^verbatim>\<open>x {"a": "```{b}```"}\<close> the brace
  slice is a valid JSON document, so the three strategies tried in order would return
  its value; but the fence pattern matches inside the string, its group \<^verbatim>\<open>{b}\<close> does
  not decode, and the code raises \<^verbatim>\<open>ParseError\<close> without trying the slice.
\<close>

theorem parse_fence_counterexample:
  \<open>brace_slice ''x {"a": "```{b}```"}'' = Some ''{"a": "```{b}```"}''
   \<and> spec_parse (loads_only ''{"a": "```{b}```"}'' (VDict [(''a'', VStr ''```{b}```'')]))
        (Some ''x {"a": "```{b}```"}'')
      = Some (VDict [(''a'', VStr ''```{b}```'')])
   \<and> parse_json_from_response
        (loads_only ''{"a": "```{b}```"}'' (VDict [(''a'', VStr ''```{b}```'')]))
        (Some ''x {"a": "```{b}```"}'')
      = Inl (ParseError ''Failed to parse fenced JSON'')\<close>
  by (simp add: spec_parse_def spec_candidates_def parse_json_from_response_def
        loads_only_def str_strip_def isspace_def fence_at_def startswith_def match_close_def
        str_lower_def lower_char_def brace_slice_def Let_def)

text \<open>
  C3, amended. \<^verbatim>\<open>parse_json_from_response\<close> raises \<^verbatim>\<open>ParseError\<close> on \<^verbatim>\<open>None\<close>;
  when the direct attempt fails and a fenced block matches whose group does not decode,
  it raises \<^verbatim>\<open>ParseError\<close> at once and the brace slice is not tried; in every other
  case it tries the three strategies in order and returns the value of the first that
  decodes, or raises \<^verbatim>\<open>ParseError\<close> when none does (empty and white-space-only text
  included). It never raises anything but \<^verbatim>\<open>ParseError\<close>.
\<close>

theorem parse_json_strategies:
  "parse_json_from_response loads None = Inl (ParseError ''Empty response (None)'')
   \<and> (fence_blocks loads t \<longrightarrow>
        parse_json_from_response loads (Some t)
          = Inl (ParseError ''Failed to parse fenced JSON''))
   \<and> (\<not> fence_blocks loads t \<longrightarrow>
        (case spec_parse loads (Some t) of
           Some v \<Rightarrow> parse_json_from_response loads (Some t) = Inr v
         | None \<Rightarrow> (\<exists>m. parse_json_from_response loads (Some t) = Inl (ParseError m))))
   \<and> (parse_json_from_response loads text = Inl e \<longrightarrow> is_ParseError e)"
  using parse_agrees [of loads t] parse_blocked [of loads t]
    parse_raises_ParseError [of loads "text" e]
  by (simp add: parse_json_from_response_def)

text \<open>
  The runs of \<^verbatim>\<open>tests/test_parser.py\<close> (direct, fenced, extracted, missing) and a
  fenced block that does not decode.
\<close>

theorem parse_json_strategies_witness:
  \<open>parse_json_from_response (loads_only ''{"a": 1}'' (VDict [(''a'', VInt 1)]))
       (Some ''{"a": 1}'') = Inr (VDict [(''a'', VInt 1)])
   \<and> parse_json_from_response (loads_only ''{"a": 1}'' (VDict [(''a'', VInt 1)]))
       (Some ''```json\<newline>{"a": 1}\<newline>```'') = Inr (VDict [(''a'', VInt 1)])
   \<and> parse_json_from_response (loads_only ''{"a": 1}'' (VDict [(''a'', VInt 1)]))
       (Some ''prefix\<newline>{"a": 1}\<newline>suffix'') = Inr (VDict [(''a'', VInt 1)])
   \<and> (\<exists>m. parse_json_from_response (loads_only ''{"a": 1}'' (VDict [(''a'', VInt 1)]))
       (Some ''no json here'') = Inl (ParseError m))
   \<and> parse_json_from_response (loads_only ''{"a": 1}'' (VDict [(''a'', VInt 1)]))
       (Some ''```json {"a": 1,} ```'') = Inl (ParseError ''Failed to parse fenced JSON'')\<close>
proof -
  let ?L = \<open>loads_only ''{"a": 1}'' (VDict [(''a'', VInt 1)])\<close>
  note ev = spec_parse_def spec_candidates_def fence_blocks_def loads_only_def str_strip_def
    isspace_def fence_at_def startswith_def match_close_def str_lower_def lower_char_def
    brace_slice_def Let_def
  have a: \<open>parse_json_from_response ?L (Some ''{"a": 1}'') = Inr (VDict [(''a'', VInt 1)])\<close>
    using parse_json_strategies [of ?L \<open>''{"a": 1}''\<close>] by (simp add: ev)
  have b: \<open>parse_json_from_response ?L (Some ''```json\<newline>{"a": 1}\<newline>```'')
             = Inr (VDict [(''a'', VInt 1)])\<close>
    using parse_json_strategies [of ?L \<open>''```json\<newline>{"a": 1}\<newline>```''\<close>]
    by (simp add: ev)
  have c: \<open>parse_json_from_response ?L (Some ''prefix\<newline>{"a": 1}\<newline>suffix'')
             = Inr (VDict [(''a'', VInt 1)])\<close>
    using parse_json_strategies [of ?L \<open>''prefix\<newline>{"a": 1}\<newline>suffix''\<close>]
    by (simp add: ev)
  have d: \<open>\<exists>m. parse_json_from_response ?L (Some ''no json here'') = Inl (ParseError m)\<close>
    using parse_json_strategies [of ?L \<open>''no json here''\<close>] by (simp add: ev)
  have e: \<open>parse_json_from_response ?L (Some ''```json {"a": 1,} ```'')
             = Inl (ParseError ''Failed to parse fenced JSON'')\<close>
    using parse_json_strategies [of ?L \<open>''```json {"a": 1,} ```''\<close>] by (simp add: ev)
  show ?thesis using a b c d e by simp
qed

section \<open>Stage-2 applier (runtime/executor.py)\<close>

text \<open>
  The class \<^verbatim>\<open>Frame\<close> of \<^verbatim>\<open>halligan.utils.layout\<close> is not among the sources; the
  executor's tests run it on the stand-ins \<^verbatim>\<open>DummyFrame\<close> and \<^verbatim>\<open>DummyElement\<close> of
  \<^verbatim>\<open>tests/test_executor.py\<close>, and the frames here are those: a frame has a tag, the
  elements tagged on it, and its subframes. An element that was never tagged is on no
  list, and its back reference to the parent is the place it has in the parent's list.
\<close>

datatype element = Element (el_interactable: "string option")

datatype frame =
  Frame (interactable: "string option") (interactables: "element list")
        (subframes: "frame list")

text \<open>\<^verbatim>\<open>DummyFrame()\<close>: no tag, no elements, no subframes.\<close>

definition DummyFrame :: frame where
  "DummyFrame = Frame None [] []"

definition set_frame_as :: "frame \<Rightarrow> string \<Rightarrow> frame" where
  "set_frame_as f tag = Frame (Some tag) (interactables f) (subframes f)"

text \<open>
  \<^verbatim>\<open>frame.split(rows, columns)\<close> replaces the subframes by \<open>rows * columns\<close> fresh
  frames (none when the product is not positive, as \<^verbatim>\<open>range\<close> has it); the caller then
  tags each of them. \<open>split_and_mark\<close> is the two together.
\<close>

definition split :: "frame \<Rightarrow> int \<Rightarrow> int \<Rightarrow> frame" where
  "split f rows columns =
     Frame (interactable f) (interactables f) (replicate (nat (rows * columns)) DummyFrame)"

definition split_and_mark :: "frame \<Rightarrow> int \<Rightarrow> int \<Rightarrow> string \<Rightarrow> frame" where
  "split_and_mark f rows columns mark_as =
     (let g = split f rows columns
      in Frame (interactable g) (interactables g)
           (map (\<lambda>sub. set_frame_as sub mark_as) (subframes g)))"

text \<open>
  \<^verbatim>\<open>set_element_as\<close> sets the element's tag and appends the element to its parent's
  list. \<^verbatim>\<open>grid(tiles)\<close> makes one row of \<open>tiles\<close> elements and \<^verbatim>\<open>get_element\<close> one
  element; the caller tags each.
\<close>

definition set_element_as :: "frame \<Rightarrow> string \<Rightarrow> frame" where
  "set_element_as parent tag =
     Frame (interactable parent) (interactables parent @ [Element (Some tag)])
           (subframes parent)"

fun grid_and_mark :: "frame \<Rightarrow> nat \<Rightarrow> string \<Rightarrow> frame" where
  "grid_and_mark f 0 mark_as = f"
| "grid_and_mark f (Suc n) mark_as = grid_and_mark (set_element_as f mark_as) n mark_as"

text \<open>
  \<^verbatim>\<open>payload[key]\<close> raises \<^verbatim>\<open>KeyError\<close> on a missing key, and \<^verbatim>\<open>frames[frame_id]\<close>
  is Python's indexing: a boolean counts as 0 or 1, a negative index counts from the
  end, \<^verbatim>\<open>IndexError\<close> out of range. The result is the position in the list.
\<close>

definition pget :: "(string \<times> pyval) list \<Rightarrow> string \<Rightarrow> exn + pyval" where
  "pget kvs k = (case map_of kvs k of None \<Rightarrow> Inl (PyException ''KeyError'' k)
                 | Some v \<Rightarrow> Inr v)"

definition py_index :: "nat \<Rightarrow> pyval \<Rightarrow> exn + nat" where
  "py_index n v =
     (if \<not> isinstance_int v
      then Inl (PyException ''TypeError'' ''list indices must be integers or slices'')
      else (let i = int_val v; j = (if i < 0 then int n + i else i)
            in if 0 \<le> j \<and> j < int n then Inr (nat j)
               else Inl (PyException ''IndexError'' ''list index out of range'')))"

text \<open>
  The values a validated plan carries under \<^verbatim>\<open>interactable\<close>, \<^verbatim>\<open>mark_as\<close>,
  \<^verbatim>\<open>position\<close> and \<^verbatim>\<open>details\<close> are strings, and those under \<^verbatim>\<open>rows\<close>,
  \<^verbatim>\<open>columns\<close> and \<^verbatim>\<open>tiles\<close> integers. The frames above hold strings and counts only,
  so a payload of another type ends the run with a \<^verbatim>\<open>TypeError\<close>.
\<close>

definition pget_str :: "(string \<times> pyval) list \<Rightarrow> string \<Rightarrow> exn + string" where
  "pget_str kvs k =
     bindE (pget kvs k) (\<lambda>v. case v of VStr s \<Rightarrow> Inr s
                              | _ \<Rightarrow> Inl (PyException ''TypeError'' k))"

definition pget_int :: "(string \<times> pyval) list \<Rightarrow> string \<Rightarrow> exn + int" where
  "pget_int kvs k =
     bindE (pget kvs k) (\<lambda>v. if isinstance_int v then Inr (int_val v)
                              else Inl (PyException ''TypeError'' k))"

text \<open>One turn of the loop over \<^verbatim>\<open>plan.actions\<close>: the frame at \<open>i\<close> is replaced.\<close>

definition apply_action :: "frame list \<Rightarrow> Stage2Action \<Rightarrow> exn + frame list" where
  "apply_action frames action =
     (let p = payload action in
      bindE (pget p ''frame'') (\<lambda>frame_id.
      bindE (py_index (length frames) frame_id) (\<lambda>i.
      let frame = frames ! i in
      if atype action = ''set_frame'' then
        bindE (pget_str p ''interactable'') (\<lambda>tag.
        Inr (frames[i := set_frame_as frame tag]))
      else if atype action = ''split_frame'' then
        bindE (pget_int p ''rows'') (\<lambda>rows.
        bindE (pget_int p ''columns'') (\<lambda>columns.
        bindE (pget_str p ''mark_as'') (\<lambda>mark_as.
        Inr (frames[i := split_and_mark frame rows columns mark_as]))))
      else if atype action = ''grid_frame'' then
        bindE (pget_int p ''tiles'') (\<lambda>tiles.
        bindE (pget_str p ''mark_as'') (\<lambda>mark_as.
        Inr (frames[i := grid_and_mark frame (nat tiles) mark_as])))
      else if atype action = ''get_element'' then
        bindE (pget_str p ''position'') (\<lambda>position.
        bindE (pget_str p ''details'') (\<lambda>details.
        bindE (pget_str p ''mark_as'') (\<lambda>mark_as.
        Inr (frames[i := set_element_as frame mark_as]))))
      else Inl (ValidationError (''Unknown Stage 2 action: '' @ atype action)))))"

text \<open>
  The frames are changed in place, so what a failed run has done so far stays: the
  result is the error, if any, and the frames as they are then.
\<close>

fun apply_actions :: "frame list \<Rightarrow> Stage2Action list \<Rightarrow> exn option \<times> frame list" where
  "apply_actions frames [] = (None, frames)"
| "apply_actions frames (a # as) =
     (case apply_action frames a of
        Inl e \<Rightarrow> (Some e, frames)
      | Inr frames' \<Rightarrow> apply_actions frames' as)"

subsection \<open>The walk over the frame tree\<close>

definition NEXT :: string where
  "NEXT = ''NEXT''"

text \<open>\<^verbatim>\<open>if x.interactable: types.add(...); if ... == "NEXT": next_count += 1\<close>.\<close>

definition add_tag :: "string option \<Rightarrow> string set \<times> nat \<Rightarrow> string set \<times> nat" where
  "add_tag t acc =
     (case t of
        None \<Rightarrow> acc
      | Some s \<Rightarrow> if s = [] then acc
                  else (insert s (fst acc), if s = NEXT then snd acc + 1 else snd acc))"

lemma size_subframes [termination_simp]: "size_list size (subframes f) < size f"
  by (cases f) simp

text \<open>
  The \<^verbatim>\<open>while queue\<close> loop of \<^verbatim>\<open>_collect_interactables\<close>: pop the head, count its tag
  and its elements' tags, append its subframes.
\<close>

function collect_queue :: "frame list \<Rightarrow> string set \<times> nat \<Rightarrow> string set \<times> nat" where
  "collect_queue [] acc = acc"
| "collect_queue (f # queue) acc =
     collect_queue (queue @ subframes f)
       (fold (\<lambda>el. add_tag (el_interactable el)) (interactables f)
          (add_tag (interactable f) acc))"
  by pat_completeness auto
termination
  by (relation "measure (\<lambda>(queue, acc). size_list size queue)")
     (auto simp: size_subframes less_Suc_eq_le intro: less_imp_le)

definition collect_interactables :: "frame list \<Rightarrow> string set \<times> nat" where
  "collect_interactables frames = collect_queue frames ({}, 0)"

definition apply_stage2_plan :: "frame list \<Rightarrow> Stage2Plan \<Rightarrow> (exn + unit) \<times> frame list" where
  "apply_stage2_plan frames plan =
     (case apply_actions frames (actions plan) of
        (Some e, frames') \<Rightarrow> (Inl e, frames')
      | (None, frames') \<Rightarrow>
          (let (types, next_count) = collect_interactables frames';
               non_next = {t \<in> types. t \<noteq> NEXT}
           in if card non_next \<noteq> 1
              then (Inl (ValidationError
                     ''Stage 2 must result in exactly one non-NEXT interactable type''), frames')
              else if next_count > 1
              then (Inl (ValidationError
                     ''Stage 2 must have at most one NEXT interactable''), frames')
              else (Inr (), frames')))"

subsection \<open>The post-condition on the tree\<close>

text \<open>
  The tags of a frame tree, read off the tree itself: a frame's own tag, the tags of its
  elements, and the tags of its subframes, recursively; \<^verbatim>\<open>None\<close> and the empty string
  are no tag. \<open>collect_queue_eq\<close> shows that the breadth-first walk collects exactly
  the set of these tags and counts exactly the occurrences of \<^verbatim>\<open>NEXT\<close> among them.
\<close>

fun tag_list :: "string option \<Rightarrow> string list" where
  "tag_list None = []"
| "tag_list (Some s) = (if s = [] then [] else [s])"

fun tree_tags :: "frame \<Rightarrow> string list" where
  "tree_tags (Frame t es subs) =
     tag_list t @ concat (map (\<lambda>e. tag_list (el_interactable e)) es)
       @ concat (map tree_tags subs)"

definition all_tags :: "frame list \<Rightarrow> string list" where
  "all_tags frames = concat (map tree_tags frames)"

lemma add_tag_eq:
  "add_tag t acc = (fst acc \<union> set (tag_list t), snd acc + count_list (tag_list t) NEXT)"
  by (cases t) (auto simp: add_tag_def)

lemma fold_add_tag:
  "fold (\<lambda>el. add_tag (el_interactable el)) es acc =
     (fst acc \<union> set (concat (map (\<lambda>e. tag_list (el_interactable e)) es)),
      snd acc + count_list (concat (map (\<lambda>e. tag_list (el_interactable e)) es)) NEXT)"
proof (induction es arbitrary: acc)
  case Nil
  then show ?case by simp
next
  case (Cons e es)
  have "fold (\<lambda>el. add_tag (el_interactable el)) (e # es) acc
          = fold (\<lambda>el. add_tag (el_interactable el)) es (add_tag (el_interactable e) acc)"
    by simp
  also have "\<dots> = (fst (add_tag (el_interactable e) acc)
                      \<union> set (concat (map (\<lambda>e. tag_list (el_interactable e)) es)),
                    snd (add_tag (el_interactable e) acc)
                      + count_list (concat (map (\<lambda>e. tag_list (el_interactable e)) es)) NEXT)"
    by (rule Cons.IH)
  finally have F: "fold (\<lambda>el. add_tag (el_interactable el)) (e # es) acc
      = (fst (add_tag (el_interactable e) acc)
           \<union> set (concat (map (\<lambda>e. tag_list (el_interactable e)) es)),
         snd (add_tag (el_interactable e) acc)
           + count_list (concat (map (\<lambda>e. tag_list (el_interactable e)) es)) NEXT)" .
  show ?case
    unfolding F by (simp add: add_tag_eq Un_assoc add.assoc)
qed

lemma tree_tags_sel:
  "tree_tags f = tag_list (interactable f)
     @ concat (map (\<lambda>e. tag_list (el_interactable e)) (interactables f))
     @ all_tags (subframes f)"
  by (cases f) (simp add: all_tags_def)

lemma collect_queue_eq:
  "collect_queue queue acc =
     (fst acc \<union> set (all_tags queue), snd acc + count_list (all_tags queue) NEXT)"
proof (induction queue acc rule: collect_queue.induct)
  case (1 acc)
  then show ?case by (simp add: all_tags_def)
next
  case (2 f queue acc)
  let ?acc' = "fold (\<lambda>el. add_tag (el_interactable el)) (interactables f)
                 (add_tag (interactable f) acc)"
  have q: "all_tags (queue @ subframes f) = all_tags queue @ all_tags (subframes f)"
    by (simp add: all_tags_def)
  have h: "all_tags (f # queue) = tree_tags f @ all_tags queue"
    by (simp add: all_tags_def)
  have acc': "?acc' = (fst acc \<union> set (tag_list (interactable f))
                         \<union> set (concat (map (\<lambda>e. tag_list (el_interactable e)) (interactables f))),
                       snd acc + count_list (tag_list (interactable f)) NEXT
                         + count_list (concat (map (\<lambda>e. tag_list (el_interactable e))
                              (interactables f))) NEXT)"
    by (simp add: fold_add_tag add_tag_eq)
  have "collect_queue (f # queue) acc = collect_queue (queue @ subframes f) ?acc'"
    by simp
  also have "\<dots> = (fst ?acc' \<union> set (all_tags (queue @ subframes f)),
                    snd ?acc' + count_list (all_tags (queue @ subframes f)) NEXT)"
    by (rule "2.IH")
  finally have F: "collect_queue (f # queue) acc
      = (fst ?acc' \<union> set (all_tags (queue @ subframes f)),
         snd ?acc' + count_list (all_tags (queue @ subframes f)) NEXT)" .
  show ?case
    unfolding F unfolding acc' q h tree_tags_sel [of f]
    by (auto simp: Un_ac)
qed

lemma collect_interactables_eq:
  "collect_interactables frames = (set (all_tags frames), count_list (all_tags frames) NEXT)"
  by (simp add: collect_interactables_def collect_queue_eq)

text \<open>
  Exactly one tag other than \<^verbatim>\<open>NEXT\<close> in the whole tree, and \<^verbatim>\<open>NEXT\<close> at most once.
\<close>

definition stage2_post :: "frame list \<Rightarrow> bool" where
  "stage2_post frames =
     (card (set (all_tags frames) - {NEXT}) = 1 \<and> count_list (all_tags frames) NEXT \<le> 1)"

lemma minus_next: "{t \<in> T. t \<noteq> NEXT} = T - {NEXT}"
  by auto

lemma apply_stage2_plan_ok:
  "fst (apply_stage2_plan frames plan) = Inr () \<Longrightarrow>
     stage2_post (snd (apply_stage2_plan frames plan))"
  by (auto simp: apply_stage2_plan_def collect_interactables_eq stage2_post_def minus_next
        split: prod.splits option.splits if_splits)

lemma apply_stage2_plan_bad:
  "apply_actions frames (actions plan) = (None, fs) \<Longrightarrow> \<not> stage2_post fs \<Longrightarrow>
     (\<exists>m. apply_stage2_plan frames plan = (Inl (ValidationError m), fs))"
  by (auto simp: apply_stage2_plan_def collect_interactables_eq stage2_post_def minus_next
        split: prod.splits option.splits if_splits)

lemma apply_stage2_plan_good:
  "apply_actions frames (actions plan) = (None, fs) \<Longrightarrow> stage2_post fs \<Longrightarrow>
     apply_stage2_plan frames plan = (Inr (), fs)"
  by (auto simp: apply_stage2_plan_def collect_interactables_eq stage2_post_def minus_next
        split: prod.splits option.splits if_splits)


text \<open>
  C1. When \<^verbatim>\<open>apply_stage2_plan\<close> returns without raising, the tree holds exactly one
  tag other than \<^verbatim>\<open>NEXT\<close> and \<^verbatim>\<open>NEXT\<close> at most once; when all actions have applied
  and the tree does not satisfy this, \<^verbatim>\<open>apply_stage2_plan\<close> raises a
  \<^verbatim>\<open>ValidationError\<close>; and when the tree satisfies it, the call returns.
\<close>

theorem apply_stage2_plan_postcondition:
  "(fst (apply_stage2_plan frames plan) = Inr () \<longrightarrow>
      stage2_post (snd (apply_stage2_plan frames plan)))
   \<and> (apply_actions frames (actions plan) = (None, fs) \<and> \<not> stage2_post fs \<longrightarrow>
        (\<exists>m. apply_stage2_plan frames plan = (Inl (ValidationError m), fs)))
   \<and> (apply_actions frames (actions plan) = (None, fs) \<and> stage2_post fs \<longrightarrow>
        apply_stage2_plan frames plan = (Inr (), fs))"
  using apply_stage2_plan_ok [of frames plan] apply_stage2_plan_bad [of frames plan fs]
    apply_stage2_plan_good [of frames plan fs]
  by blast

text \<open>
  The plan of \<^verbatim>\<open>test_stage2_plan_enforces_single_interactable_type\<close> (a split marked
  \<^verbatim>\<open>SELECTABLE\<close>, then a grid marked \<^verbatim>\<open>SWAPPABLE\<close>, on one frame), which must raise,
  and a plan that passes: the same split, then \<^verbatim>\<open>NEXT\<close> on a second frame.
\<close>

definition plan_two_types :: Stage2Plan where
  "plan_two_types = \<lparr>actions = [
     \<lparr>atype = ''split_frame'',
      payload = [(''frame'', VInt 0), (''rows'', VInt 2), (''columns'', VInt 2),
                 (''mark_as'', VStr ''SELECTABLE'')]\<rparr>,
     \<lparr>atype = ''grid_frame'',
      payload = [(''frame'', VInt 0), (''tiles'', VInt 4),
                 (''mark_as'', VStr ''SWAPPABLE'')]\<rparr>]\<rparr>"

definition plan_one_type :: Stage2Plan where
  "plan_one_type = \<lparr>actions = [
     \<lparr>atype = ''split_frame'',
      payload = [(''frame'', VInt 0), (''rows'', VInt 2), (''columns'', VInt 2),
                 (''mark_as'', VStr ''SELECTABLE'')]\<rparr>,
     \<lparr>atype = ''set_frame'',
      payload = [(''frame'', VInt 1), (''interactable'', VStr ''NEXT'')]\<rparr>]\<rparr>"

theorem apply_stage2_plan_postcondition_witness:
  "(\<exists>m. apply_stage2_plan [DummyFrame] plan_two_types =
       (Inl (ValidationError m),
        [Frame None (replicate 4 (Element (Some ''SWAPPABLE'')))
           (replicate 4 (Frame (Some ''SELECTABLE'') [] []))]))
   \<and> apply_stage2_plan [DummyFrame, DummyFrame] plan_one_type =
       (Inr (), [Frame None [] (replicate 4 (Frame (Some ''SELECTABLE'') [] [])),
                 Frame (Some ''NEXT'') [] []])
   \<and> stage2_post [Frame None [] (replicate 4 (Frame (Some ''SELECTABLE'') [] [])),
                  Frame (Some ''NEXT'') [] []]"
proof -
  let ?bad = "[Frame None (replicate 4 (Element (Some ''SWAPPABLE'')))
                 (replicate 4 (Frame (Some ''SELECTABLE'') [] []))]"
  let ?good = "[Frame None [] (replicate 4 (Frame (Some ''SELECTABLE'') [] [])),
                Frame (Some ''NEXT'') [] []]"
  have a1: "apply_actions [DummyFrame] (actions plan_two_types) = (None, ?bad)"
    by code_simp
  have b1: "\<not> stage2_post ?bad"
    by code_simp
  have a2: "apply_actions [DummyFrame, DummyFrame] (actions plan_one_type) = (None, ?good)"
    by code_simp
  have b2: "stage2_post ?good"
    by code_simp
  have c1: "\<exists>m. apply_stage2_plan [DummyFrame] plan_two_types = (Inl (ValidationError m), ?bad)"
    using apply_stage2_plan_postcondition [of "[DummyFrame]" plan_two_types ?bad] a1 b1
    by blast
  have c2: "apply_stage2_plan [DummyFrame, DummyFrame] plan_one_type = (Inr (), ?good)"
    using apply_stage2_plan_postcondition [of "[DummyFrame, DummyFrame]" plan_one_type ?good]
      a2 b2
    by blast
  have c3: "stage2_post (snd (apply_stage2_plan [DummyFrame, DummyFrame] plan_one_type))"
    using apply_stage2_plan_postcondition [of "[DummyFrame, DummyFrame]" plan_one_type ?good]
      c2
    by simp
  show ?thesis using c1 c2 c3 by simp
qed

section \<open>Stage-3 executor (runtime/executor.py)\<close>

text \<open>
  The interpreter works on Python objects that it does not define: the frames, the tools
  of the registry, the values they return. They are the \<open>host\<close>, a parameter of the model.
  An object is an opaque \<open>VObj class id\<close>; the host tells what reading an attribute gives,
  what calling a callable gives (and how the world changes), and what the built-ins
  \<^verbatim>\<open>len\<close>, \<^verbatim>\<open>sum\<close>, \<^verbatim>\<open>bool\<close>, \<^verbatim>\<open>list\<close> and subscripting give on an opaque object.
  An exception raised by the host is foreign to \<^verbatim>\<open>runtime/errors.py\<close>: a subclass of
  \<^verbatim>\<open>Exception\<close> with its class name and message, or another \<^verbatim>\<open>BaseException\<close>
  such as \<^verbatim>\<open>KeyboardInterrupt\<close>.
\<close>

datatype hexn = HException string string | HBaseException string

fun lift_hexn :: "hexn \<Rightarrow> exn" where
  "lift_hexn (HException c m) = PyException c m"
| "lift_hexn (HBaseException c) = PyBaseException c"

record 'w host =
  h_getattr :: "'w \<Rightarrow> pyval \<Rightarrow> string \<Rightarrow> hexn + pyval"
  h_call :: "'w \<Rightarrow> pyval \<Rightarrow> pyval list \<Rightarrow> (string \<times> pyval) list \<Rightarrow> (hexn + pyval) \<times> 'w"
  h_builtin :: "'w \<Rightarrow> string \<Rightarrow> pyval list \<Rightarrow> hexn + pyval"

text \<open>
  What the interpreter asks of the host is recorded in a trace, which no code reads: a
  tool of the registry called, a method called by a \<^verbatim>\<open>call_method\<close> step (class name
  and method name), an attribute read by \<^verbatim>\<open>attr\<close> or \<^verbatim>\<open>map_attr\<close>, and a method that
  a reference selector calls under its fixed name.
\<close>

datatype event =
  ToolInvoked string
| MethodInvoked string string
| AttrResolved string
| RefInvoked string

record 'w machine =
  env :: "string \<rightharpoonup> pyval"
  world :: 'w
  trace :: "event list"

text \<open>A computation runs on the machine and returns a value or raises.\<close>

type_synonym ('w, 'a) run = "'w machine \<Rightarrow> (exn + 'a) \<times> 'w machine"

definition ret :: "'a \<Rightarrow> ('w, 'a) run" where
  "ret x = (\<lambda>st. (Inr x, st))"

definition raise :: "exn \<Rightarrow> ('w, 'a) run" where
  "raise e = (\<lambda>st. (Inl e, st))"

definition bnd :: "('w, 'a) run \<Rightarrow> ('a \<Rightarrow> ('w, 'b) run) \<Rightarrow> ('w, 'b) run" where
  "bnd m f = (\<lambda>st. case m st of (Inl e, s) \<Rightarrow> (Inl e, s) | (Inr x, s) \<Rightarrow> f x s)"

lemma bnd_cong [fundef_cong]:
  "m = m' \<Longrightarrow> (\<And>x. f x = f' x) \<Longrightarrow> bnd m f = bnd m' f'"
  by (auto simp: bnd_def fun_eq_iff split: prod.splits sum.splits)

definition log_event :: "event \<Rightarrow> ('w, unit) run" where
  "log_event ev = (\<lambda>st. (Inr (), st\<lparr>trace := trace st @ [ev]\<rparr>))"

definition set_env :: "string \<Rightarrow> pyval \<Rightarrow> ('w, unit) run" where
  "set_env name v = (\<lambda>st. (Inr (), st\<lparr>env := (env st)(name \<mapsto> v)\<rparr>))"

definition host_getattr :: "'w host \<Rightarrow> pyval \<Rightarrow> string \<Rightarrow> ('w, pyval) run" where
  "host_getattr H obj name =
     (\<lambda>st. case h_getattr H (world st) obj name of
              Inl e \<Rightarrow> (Inl (lift_hexn e), st)
            | Inr v \<Rightarrow> (Inr v, st))"

definition host_builtin :: "'w host \<Rightarrow> string \<Rightarrow> pyval list \<Rightarrow> ('w, pyval) run" where
  "host_builtin H name args =
     (\<lambda>st. case h_builtin H (world st) name args of
              Inl e \<Rightarrow> (Inl (lift_hexn e), st)
            | Inr v \<Rightarrow> (Inr v, st))"

definition host_call ::
  "'w host \<Rightarrow> event \<Rightarrow> pyval \<Rightarrow> pyval list \<Rightarrow> (string \<times> pyval) list \<Rightarrow> ('w, pyval) run" where
  "host_call H ev fn pos kw =
     (\<lambda>st. case h_call H (world st) fn pos kw of
              (Inl e, w) \<Rightarrow> (Inl (lift_hexn e), st\<lparr>world := w, trace := trace st @ [ev]\<rparr>)
            | (Inr v, w) \<Rightarrow> (Inr v, st\<lparr>world := w, trace := trace st @ [ev]\<rparr>))"

text \<open>
  \<^verbatim>\<open>hasattr(obj, name)\<close> is false when reading the attribute raises
  \<^verbatim>\<open>AttributeError\<close>; any other exception passes through.
\<close>

definition hasattr :: "'w host \<Rightarrow> pyval \<Rightarrow> string \<Rightarrow> ('w, bool) run" where
  "hasattr H obj name =
     (\<lambda>st. case h_getattr H (world st) obj name of
              Inl (HException c m) \<Rightarrow>
                (if c = ''AttributeError'' then (Inr False, st)
                 else (Inl (PyException c m), st))
            | Inl (HBaseException c) \<Rightarrow> (Inl (PyBaseException c), st)
            | Inr v \<Rightarrow> (Inr True, st))"

text \<open>The built-ins on the values the model knows, left to the host on an object.\<close>

definition py_len :: "'w host \<Rightarrow> pyval \<Rightarrow> ('w, pyval) run" where
  "py_len H v =
     (case v of
        VList xs \<Rightarrow> ret (VInt (int (length xs)))
      | VStr s \<Rightarrow> ret (VInt (int (length s)))
      | VDict kvs \<Rightarrow> ret (VInt (int (length kvs)))
      | VObj c i \<Rightarrow> host_builtin H ''len'' [v]
      | _ \<Rightarrow> raise (PyException ''TypeError'' ''object has no len()''))"

text \<open>
  \<^verbatim>\<open>sum\<close> of a list of integers is their sum (a boolean counts as 0 or 1); a list
  with another element, on which Python adds floats or calls \<^verbatim>\<open>__radd__\<close>, is left to
  the host.
\<close>

definition py_sum :: "'w host \<Rightarrow> pyval \<Rightarrow> ('w, pyval) run" where
  "py_sum H v =
     (case v of
        VList xs \<Rightarrow>
          (if list_all isinstance_int xs then ret (VInt (sum_list (map int_val xs)))
           else host_builtin H ''sum'' [v])
      | VStr s \<Rightarrow>
          (if s = [] then ret (VInt 0)
           else raise (PyException ''TypeError'' ''unsupported operand type(s) for +''))
      | VDict kvs \<Rightarrow>
          (if kvs = [] then ret (VInt 0)
           else raise (PyException ''TypeError'' ''unsupported operand type(s) for +''))
      | VObj c i \<Rightarrow> host_builtin H ''sum'' [v]
      | _ \<Rightarrow> raise (PyException ''TypeError'' ''object is not iterable''))"

text \<open>\<^verbatim>\<open>lst[idx]\<close> with \<open>idx\<close> an integer.\<close>

definition py_getitem :: "'w host \<Rightarrow> pyval \<Rightarrow> pyval \<Rightarrow> ('w, pyval) run" where
  "py_getitem H lst idx =
     (case lst of
        VList xs \<Rightarrow>
          (case py_index (length xs) idx of Inl e \<Rightarrow> raise e | Inr j \<Rightarrow> ret (xs ! j))
      | VStr s \<Rightarrow>
          (case py_index (length s) idx of
             Inl e \<Rightarrow> raise (PyException ''IndexError'' ''string index out of range'')
           | Inr j \<Rightarrow> ret (VStr [s ! j]))
      | VDict kvs \<Rightarrow> raise (PyException ''KeyError'' '''')
      | VObj c i \<Rightarrow> host_builtin H ''getitem'' [lst, idx]
      | _ \<Rightarrow> raise (PyException ''TypeError'' ''object is not subscriptable''))"

text \<open>The items that \<^verbatim>\<open>for item in items\<close> goes through.\<close>

definition py_iter :: "'w host \<Rightarrow> pyval \<Rightarrow> ('w, pyval list) run" where
  "py_iter H v =
     (case v of
        VList xs \<Rightarrow> ret xs
      | VStr s \<Rightarrow> ret (map (\<lambda>c. VStr [c]) s)
      | VDict kvs \<Rightarrow> ret (map (\<lambda>kv. VStr (fst kv)) kvs)
      | VObj c i \<Rightarrow>
          bnd (host_builtin H ''list'' [v])
            (\<lambda>r. case r of VList xs \<Rightarrow> ret xs
                  | _ \<Rightarrow> raise (PyException ''TypeError'' ''object is not iterable''))
      | _ \<Rightarrow> raise (PyException ''TypeError'' ''object is not iterable''))"

text \<open>The truth value that \<^verbatim>\<open>if cond:\<close> tests.\<close>

definition py_truthy :: "'w host \<Rightarrow> pyval \<Rightarrow> ('w, bool) run" where
  "py_truthy H v =
     (case v of
        VNone \<Rightarrow> ret False
      | VBool b \<Rightarrow> ret b
      | VInt i \<Rightarrow> ret (i \<noteq> 0)
      | VFloat r \<Rightarrow> ret (r \<noteq> 0)
      | VStr s \<Rightarrow> ret (s \<noteq> [])
      | VList xs \<Rightarrow> ret (xs \<noteq> [])
      | VDict kvs \<Rightarrow> ret (kvs \<noteq> [])
      | VObj c i \<Rightarrow>
          bnd (host_builtin H ''bool'' [v])
            (\<lambda>r. case r of VBool b \<Rightarrow> ret b
                  | _ \<Rightarrow> raise (PyException ''TypeError'' ''__bool__ should return bool'')))"

subsection \<open>Expressions\<close>

text \<open>
  \<^verbatim>\<open>_ALLOWED_METHODS\<close> and \<^verbatim>\<open>_ensure_allowed_method\<close>; a class that the table does
  not have allows no method.
\<close>

definition ALLOWED_METHODS :: "(string \<times> string list) list" where
  "ALLOWED_METHODS =
     [(''Frame'', [''show_keypoints'', ''get_keypoint'', ''get_interactable'']),
      (''Point'', [''show_neighbours'', ''get_neighbour'']),
      (''SelectChoice'', [''select'']),
      (''SlideChoice'', [''refine'', ''release'']),
      (''SwapChoice'', [''swap'']),
      (''DragChoice'', [''drop'']),
      (''Choice'', [''release''])]"

definition allowed_method :: "string \<Rightarrow> string \<Rightarrow> bool" where
  "allowed_method cls method =
     (case map_of ALLOWED_METHODS cls of None \<Rightarrow> False | Some ms \<Rightarrow> method \<in> set ms)"

definition ensure_allowed_method :: "pyval \<Rightarrow> string \<Rightarrow> ('w, unit) run" where
  "ensure_allowed_method obj method =
     (if \<not> allowed_method (class_name obj) method
      then raise (ToolError ''Method not allowed'')
      else ret ())"

text \<open>The test on a frame id, and on the id of an interactable, keypoint or neighbour.\<close>

definition valid_frame_id :: "pyval list \<Rightarrow> pyval \<Rightarrow> bool" where
  "valid_frame_id frames v =
     (isinstance_int v \<and> 0 \<le> int_val v \<and> int_val v < int (length frames))"

definition valid_id :: "pyval \<Rightarrow> bool" where
  "valid_id v = (isinstance_int v \<and> \<not> int_val v < 0)"

text \<open>\<^verbatim>\<open>frames[frame_id].get_interactable(id)\<close> and its like: the method is read, then called.\<close>

definition ref_method :: "'w host \<Rightarrow> pyval \<Rightarrow> string \<Rightarrow> pyval \<Rightarrow> ('w, pyval) run" where
  "ref_method H obj name arg =
     bnd (host_getattr H obj name) (\<lambda>fn. host_call H (RefInvoked name) fn [arg] [])"

definition resolve_attr :: "'w host \<Rightarrow> pyval \<Rightarrow> string \<Rightarrow> ('w, pyval) run" where
  "resolve_attr H obj name = bnd (log_event (AttrResolved name)) (\<lambda>_. host_getattr H obj name)"

fun map_attr :: "'w host \<Rightarrow> string \<Rightarrow> pyval list \<Rightarrow> ('w, pyval list) run" where
  "map_attr H attr [] = ret []"
| "map_attr H attr (item # items) =
     bnd (resolve_attr H item attr)
       (\<lambda>v. bnd (map_attr H attr items) (\<lambda>vs. ret (v # vs)))"

fun filter_mask :: "pyval list \<Rightarrow> pyval list \<Rightarrow> exn + pyval list" where
  "filter_mask (item # items) (VBool flag # flags) =
     bindE (filter_mask items flags) (\<lambda>out. Inr (if flag then item # out else out))"
| "filter_mask (item # items) (flag # flags) =
     Inl (ToolError ''filter_mask mask must contain booleans'')"
| "filter_mask items flags = Inr []"

lemma size_map_of:
  "map_of kvs k = Some v \<Longrightarrow> size v < Suc (size_list (size_prod (\<lambda>x. 0) size) kvs)"
  by (induction kvs) (auto split: if_splits)

lemma size_dget [termination_simp]: "size (dget kvs k) < Suc (size_list (size_prod (\<lambda>x. 0) size) kvs)"
  by (auto simp: dget_def dget_default_def dest: size_map_of split: option.splits)

text \<open>
  \<^verbatim>\<open>_eval_expr\<close>. The tests come in the order of the source; the message of a
  \<^verbatim>\<open>ToolError\<close> is its fixed part.
\<close>

function eval_expr :: "'w host \<Rightarrow> pyval list \<Rightarrow> pyval \<Rightarrow> ('w, pyval) run"
  and eval_list :: "'w host \<Rightarrow> pyval list \<Rightarrow> pyval list \<Rightarrow> ('w, pyval list) run" where
  "eval_expr H frames VNone = ret VNone"
| "eval_expr H frames (VBool b) = ret (VBool b)"
| "eval_expr H frames (VInt i) = ret (VInt i)"
| "eval_expr H frames (VFloat r) = ret (VFloat r)"
| "eval_expr H frames (VStr s) = ret (VStr s)"
| "eval_expr H frames (VList xs) = bnd (eval_list H frames xs) (\<lambda>vs. ret (VList vs))"
| "eval_expr H frames (VObj c i) = raise (ToolError ''Unsupported expression'')"
| "eval_expr H frames (VDict kvs) =
     (if map_of kvs ''var'' \<noteq> None then
        (case dget kvs ''var'' of
           VStr name \<Rightarrow>
             (\<lambda>st. case env st name of
                      None \<Rightarrow> raise (ToolError ''Undefined variable'') st
                    | Some v \<Rightarrow> ret v st)
         | _ \<Rightarrow> raise (ToolError ''Expression var name must be string''))
      else if dget kvs ''ref'' = VStr ''frame'' then
        (if \<not> valid_frame_id frames (dget kvs ''id'')
         then raise (ToolError ''Invalid frame id'')
         else ret (frames ! nat (int_val (dget kvs ''id''))))
      else if dget kvs ''ref'' = VStr ''interactable'' then
        (if \<not> valid_frame_id frames (dget kvs ''frame'')
         then raise (ToolError ''Invalid frame id'')
         else if \<not> valid_id (dget kvs ''id'')
         then raise (ToolError ''Invalid interactable id'')
         else ref_method H (frames ! nat (int_val (dget kvs ''frame'')))
                ''get_interactable'' (dget kvs ''id''))
      else if dget kvs ''ref'' = VStr ''keypoint'' then
        (if \<not> valid_frame_id frames (dget kvs ''frame'')
         then raise (ToolError ''Invalid frame id'')
         else if \<not> valid_id (dget kvs ''id'')
         then raise (ToolError ''Invalid keypoint id'')
         else ref_method H (frames ! nat (int_val (dget kvs ''frame'')))
                ''get_keypoint'' (dget kvs ''id''))
      else if dget kvs ''ref'' = VStr ''neighbour'' then
        bnd (eval_expr H frames (dget kvs ''point''))
          (\<lambda>point. bnd (hasattr H point ''get_neighbour'')
             (\<lambda>has. if \<not> has
                     then raise (ToolError ''neighbour.point must evaluate to a Point-like object'')
                     else if \<not> valid_id (dget kvs ''id'')
                     then raise (ToolError ''Invalid neighbour id'')
                     else ref_method H point ''get_neighbour'' (dget kvs ''id'')))
      else if dget kvs ''ref'' = VStr ''attr'' then
        bnd (eval_expr H frames (dget kvs ''obj''))
          (\<lambda>obj. case dget kvs ''name'' of
                    VStr name \<Rightarrow>
                      (if startswith name ''__''
                       then raise (ToolError ''Dunder attribute access is not allowed'')
                       else resolve_attr H obj name)
                  | _ \<Rightarrow> raise (ToolError ''attr.name must be string''))
      else if dget kvs ''ref'' = VStr ''index'' then
        bnd (eval_expr H frames (dget kvs ''list''))
          (\<lambda>lst. bnd (eval_expr H frames (dget kvs ''index''))
             (\<lambda>idx. if \<not> isinstance_int idx
                     then raise (ToolError ''index.index must evaluate to int'')
                     else py_getitem H lst idx))
      else if dget kvs ''op'' = VStr ''map_attr'' then
        bnd (eval_expr H frames (dget kvs ''list''))
          (\<lambda>items. case dget kvs ''attr'' of
                      VStr attr \<Rightarrow>
                        (if startswith attr ''__''
                         then raise (ToolError ''map_attr.attr must be a non-dunder string'')
                         else bnd (py_iter H items)
                                (\<lambda>xs. bnd (map_attr H attr xs) (\<lambda>vs. ret (VList vs))))
                    | _ \<Rightarrow> raise (ToolError ''map_attr.attr must be a non-dunder string''))
      else if dget kvs ''op'' = VStr ''filter_mask'' then
        bnd (eval_expr H frames (dget kvs ''items''))
          (\<lambda>items. bnd (eval_expr H frames (dget kvs ''mask''))
             (\<lambda>flags. case (items, flags) of
                        (VList xs, VList fs) \<Rightarrow>
                          (if length xs \<noteq> length fs
                           then raise (ToolError ''filter_mask items and mask must be same length'')
                           else (case filter_mask xs fs of
                                   Inl e \<Rightarrow> raise e
                                 | Inr out \<Rightarrow> ret (VList out)))
                      | _ \<Rightarrow> raise (ToolError ''filter_mask requires list items and list mask'')))
      else if dget kvs ''op'' = VStr ''len'' then
        bnd (eval_expr H frames (dget kvs ''value'')) (py_len H)
      else if dget kvs ''op'' = VStr ''sum'' then
        bnd (eval_expr H frames (dget kvs ''value'')) (py_sum H)
      else raise (ToolError ''Unsupported expression''))"
| "eval_list H frames [] = ret []"
| "eval_list H frames (x # xs) =
     bnd (eval_expr H frames x) (\<lambda>v. bnd (eval_list H frames xs) (\<lambda>vs. ret (v # vs)))"
  by pat_completeness auto

termination
  by (relation "measure (\<lambda>a. case a of Inl (H, frames, e) \<Rightarrow> size e
                               | Inr (H, frames, xs) \<Rightarrow> size_list size xs)")
     (auto simp: size_dget)

subsection \<open>Steps\<close>

text \<open>The arguments of a call, evaluated in the order of the items of \<^verbatim>\<open>args\<close>.\<close>

fun eval_args ::
  "'w host \<Rightarrow> pyval list \<Rightarrow> (string \<times> pyval) list \<Rightarrow> ('w, (string \<times> pyval) list) run" where
  "eval_args H frames [] = ret []"
| "eval_args H frames ((k, v) # kvs) =
     bnd (eval_expr H frames v)
       (\<lambda>x. bnd (eval_args H frames kvs) (\<lambda>xs. ret ((k, x) # xs)))"

text \<open>
  \<^verbatim>\<open>try: ... except Exception as exc: raise ToolError(...)\<close> around a call: a
  \<^verbatim>\<open>BaseException\<close> that is no \<^verbatim>\<open>Exception\<close> is not caught.
\<close>

definition wrap_ToolError :: "string \<Rightarrow> ('w, 'a) run \<Rightarrow> ('w, 'a) run" where
  "wrap_ToolError msg m =
     (\<lambda>st. case m st of
              (Inl e, s) \<Rightarrow> (if is_Exception e then (Inl (ToolError msg), s) else (Inl e, s))
            | (Inr x, s) \<Rightarrow> (Inr x, s))"

text \<open>The result is kept under \<^verbatim>\<open>save_as\<close> when the step has one.\<close>

definition save_result :: "(string \<times> pyval) list \<Rightarrow> string \<Rightarrow> pyval \<Rightarrow> ('w, unit) run" where
  "save_result kvs msg result =
     (case dget kvs ''save_as'' of
        VNone \<Rightarrow> ret ()
      | VStr name \<Rightarrow> (if name = [] then raise (ToolError msg) else set_env name result)
      | _ \<Rightarrow> raise (ToolError msg))"

text \<open>\<^verbatim>\<open>isinstance(name, str) and name\<close>: a non-empty string.\<close>

fun nonempty_str :: "pyval \<Rightarrow> bool" where
  "nonempty_str (VStr s) = (s \<noteq> [])"
| "nonempty_str v = False"

fun str_val :: "pyval \<Rightarrow> string" where
  "str_val (VStr s) = s"
| "str_val v = []"

definition step_call ::
  "'w host \<Rightarrow> (string \<rightharpoonup> pyval) \<Rightarrow> pyval list \<Rightarrow> (string \<times> pyval) list \<Rightarrow> ('w, unit) run" where
  "step_call H registry frames kvs =
     (case dget kvs ''tool'' of
        VStr tool_name \<Rightarrow>
          (case registry tool_name of
             None \<Rightarrow> raise (ToolError ''Tool not allowed'')
           | Some fn \<Rightarrow>
               (case dget_default kvs ''args'' (VDict []) of
                  VDict args_obj \<Rightarrow>
                    bnd (eval_args H frames args_obj)
                      (\<lambda>args. bnd (wrap_ToolError ''Tool call failed''
                                      (host_call H (ToolInvoked tool_name) fn [] args))
                         (save_result kvs ''call.save_as must be non-empty string''))
                | _ \<Rightarrow> raise (ToolError ''call.args must be object'')))
      | _ \<Rightarrow> raise (ToolError ''call.tool must be string''))"

definition step_call_method ::
  "'w host \<Rightarrow> pyval list \<Rightarrow> (string \<times> pyval) list \<Rightarrow> ('w, unit) run" where
  "step_call_method H frames kvs =
     bnd (eval_expr H frames (dget kvs ''target''))
       (\<lambda>target.
          if \<not> nonempty_str (dget kvs ''method'')
          then raise (ToolError ''call_method.method must be string'')
          else
            bnd (ensure_allowed_method target (str_val (dget kvs ''method'')))
              (\<lambda>_. bnd (host_getattr H target (str_val (dget kvs ''method'')))
                 (\<lambda>fn. case dget_default kvs ''args'' (VDict []) of
                          VDict args_obj \<Rightarrow>
                            bnd (eval_args H frames args_obj)
                              (\<lambda>args.
                                 bnd (wrap_ToolError ''Method call failed''
                                        (host_call H
                                           (MethodInvoked (class_name target)
                                              (str_val (dget kvs ''method'')))
                                           fn [] args))
                                   (save_result kvs
                                      ''call_method.save_as must be non-empty string''))
                        | _ \<Rightarrow> raise (ToolError ''call_method.args must be object''))))"

definition step_assign ::
  "'w host \<Rightarrow> pyval list \<Rightarrow> (string \<times> pyval) list \<Rightarrow> ('w, unit) run" where
  "step_assign H frames kvs =
     (if \<not> nonempty_str (dget kvs ''var'')
      then raise (ToolError ''assign.var must be non-empty string'')
      else bnd (eval_expr H frames (dget kvs ''value''))
             (set_env (str_val (dget kvs ''var''))))"

lemma size_steps [termination_simp]:
  "dget_default kvs k (VList []) = VList body \<Longrightarrow>
   size_list size body < Suc (size_list (size_prod (\<lambda>x. 0) size) kvs)"
  by (auto simp: dget_default_def dest: size_map_of split: option.splits)

text \<open>
  \<^verbatim>\<open>run_steps\<close>, the closure of \<^verbatim>\<open>execute_stage3_program\<close>: \<open>run_step\<close> is one turn of
  its loop over the steps, \<open>foreach_loop\<close> the \<^verbatim>\<open>try: for item in iterable: ... except
  _Break: pass\<close> of a \<^verbatim>\<open>foreach\<close> step. The steps are JSON values, so a step that is not
  an object has no \<^verbatim>\<open>get\<close>.
\<close>

function run_steps ::
    "'w host \<Rightarrow> (string \<rightharpoonup> pyval) \<Rightarrow> pyval list \<Rightarrow> pyval list \<Rightarrow> ('w, unit) run"
  and run_step ::
    "'w host \<Rightarrow> (string \<rightharpoonup> pyval) \<Rightarrow> pyval list \<Rightarrow> pyval \<Rightarrow> ('w, unit) run"
  and foreach_loop ::
    "'w host \<Rightarrow> (string \<rightharpoonup> pyval) \<Rightarrow> pyval list \<Rightarrow> string \<Rightarrow> pyval list \<Rightarrow> pyval list
       \<Rightarrow> ('w, unit) run" where
  "run_steps H registry frames [] = ret ()"
| "run_steps H registry frames (step # rest) =
     bnd (run_step H registry frames step) (\<lambda>_. run_steps H registry frames rest)"
| "run_step H registry frames (VDict kvs) =
     (if dget kvs ''op'' = VStr ''call'' then step_call H registry frames kvs
      else if dget kvs ''op'' = VStr ''call_method'' then step_call_method H frames kvs
      else if dget kvs ''op'' = VStr ''assign'' then step_assign H frames kvs
      else if dget kvs ''op'' = VStr ''foreach'' then
        (if \<not> nonempty_str (dget kvs ''var'')
         then raise (ToolError ''foreach.var must be non-empty string'')
         else
           bnd (eval_expr H frames (dget kvs ''in''))
             (\<lambda>iterable.
                case iterable of
                  VList items \<Rightarrow>
                    (case dget_default kvs ''do'' (VList []) of
                       VList body \<Rightarrow>
                         foreach_loop H registry frames (str_val (dget kvs ''var'')) items body
                     | _ \<Rightarrow> raise (ToolError ''foreach.do must be a list of steps''))
                | _ \<Rightarrow> raise (ToolError ''foreach.in must evaluate to a list'')))
      else if dget kvs ''op'' = VStr ''if'' then
        bnd (eval_expr H frames (dget kvs ''cond''))
          (\<lambda>cond.
             case dget_default kvs ''then'' (VList []) of
               VList then_steps \<Rightarrow>
                 (case dget_default kvs ''else'' (VList []) of
                    VList else_steps \<Rightarrow>
                      bnd (py_truthy H cond)
                        (\<lambda>c. if c then run_steps H registry frames then_steps
                              else run_steps H registry frames else_steps)
                  | _ \<Rightarrow> raise (ToolError ''if.then/if.else must be list of steps''))
             | _ \<Rightarrow> raise (ToolError ''if.then/if.else must be list of steps''))
      else if dget kvs ''op'' = VStr ''break'' then raise Break
      else raise (ToolError ''Unknown step op''))"
| "run_step H registry frames VNone = raise (PyException ''AttributeError'' ''get'')"
| "run_step H registry frames (VBool b) = raise (PyException ''AttributeError'' ''get'')"
| "run_step H registry frames (VInt i) = raise (PyException ''AttributeError'' ''get'')"
| "run_step H registry frames (VFloat r) = raise (PyException ''AttributeError'' ''get'')"
| "run_step H registry frames (VStr s) = raise (PyException ''AttributeError'' ''get'')"
| "run_step H registry frames (VList xs) = raise (PyException ''AttributeError'' ''get'')"
| "run_step H registry frames (VObj c i) = raise (PyException ''AttributeError'' ''get'')"
| "foreach_loop H registry frames var [] body = ret ()"
| "foreach_loop H registry frames var (item # items) body =
     (\<lambda>st. case bnd (set_env var item) (\<lambda>_. run_steps H registry frames body) st of
              (Inl e, s) \<Rightarrow> (if e = Break then (Inr (), s) else (Inl e, s))
            | (Inr u, s) \<Rightarrow> foreach_loop H registry frames var items body s)"
  by pat_completeness auto

termination
  by (relation "measures
         [\<lambda>a. case a of
                Inl (H, registry, frames, ss) \<Rightarrow> 2 * size_list size ss
              | Inr (Inl (H, registry, frames, step)) \<Rightarrow> 2 * size step
              | Inr (Inr (H, registry, frames, var, items, body)) \<Rightarrow>
                  2 * size_list size body + 1,
          \<lambda>a. case a of
                Inr (Inr (H, registry, frames, var, items, body)) \<Rightarrow> length items
              | _ \<Rightarrow> 0]")
     (auto dest: size_steps)

text \<open>\<^verbatim>\<open>execute_stage3_program\<close> starts from an empty environment.\<close>

definition execute_stage3_program ::
  "'w host \<Rightarrow> (string \<rightharpoonup> pyval) \<Rightarrow> pyval list \<Rightarrow> Stage3Program \<Rightarrow> 'w \<Rightarrow> event list
     \<Rightarrow> (exn + unit) \<times> 'w machine" where
  "execute_stage3_program H registry frames program w tr =
     run_steps H registry frames (steps program) \<lparr>env = Map.empty, world = w, trace = tr\<rparr>"

subsection \<open>What a run can do\<close>

text \<open>
  An event is allowed when the tool is in the registry, the pair of class and method is in
  the table, the attribute has no reserved prefix, the selector's method is one of the
  three fixed names.
\<close>

definition ok_event :: "(string \<rightharpoonup> pyval) \<Rightarrow> event \<Rightarrow> bool" where
  "ok_event registry ev =
     (case ev of
        ToolInvoked name \<Rightarrow> registry name \<noteq> None
      | MethodInvoked cls method \<Rightarrow> allowed_method cls method
      | AttrResolved name \<Rightarrow> \<not> startswith name ''__''
      | RefInvoked name \<Rightarrow> name \<in> {''get_interactable'', ''get_keypoint'', ''get_neighbour''})"

text \<open>
  \<open>good P E m\<close>: whatever the machine, a run of \<open>m\<close> only adds events that satisfy \<open>P\<close> to
  the trace, and an exception it raises satisfies \<open>E\<close>.
\<close>

definition extends :: "(event \<Rightarrow> bool) \<Rightarrow> 'w machine \<Rightarrow> 'w machine \<Rightarrow> bool" where
  "extends P st s = (\<exists>new. trace s = trace st @ new \<and> list_all P new)"

definition good :: "(event \<Rightarrow> bool) \<Rightarrow> (exn \<Rightarrow> bool) \<Rightarrow> ('w, 'a) run \<Rightarrow> bool" where
  "good P E m = (\<forall>st r s. m st = (r, s) \<longrightarrow> extends P st s \<and> (\<forall>e. r = Inl e \<longrightarrow> E e))"

definition not_Break :: "exn \<Rightarrow> bool" where
  "not_Break e = (e \<noteq> Break)"

lemma extends_refl: "extends P st st"
  by (simp add: extends_def)

lemma extends_trans: "extends P a b \<Longrightarrow> extends P b c \<Longrightarrow> extends P a c"
  by (auto simp: extends_def)

lemma good_ret: "good P E (ret x)"
  by (simp add: good_def ret_def extends_refl)

lemma good_raise: "E e \<Longrightarrow> good P E (raise e)"
  by (simp add: good_def raise_def extends_refl)

lemma good_bnd:
  assumes "good P E m" and "\<And>x. good P E (f x)"
  shows "good P E (bnd m f)"
  unfolding good_def
proof (intro allI impI)
  fix st r s
  assume run: "bnd m f st = (r, s)"
  obtain r1 s1 where m: "m st = (r1, s1)" by (cases "m st")
  from assms(1) m have e1: "extends P st s1" and x1: "\<forall>e. r1 = Inl e \<longrightarrow> E e"
    by (auto simp: good_def)
  show "extends P st s \<and> (\<forall>e. r = Inl e \<longrightarrow> E e)"
  proof (cases r1)
    case (Inl e)
    with run m have "r = Inl e" "s = s1" by (auto simp: bnd_def)
    with e1 x1 Inl show ?thesis by simp
  next
    case (Inr x)
    with run m have "f x s1 = (r, s)" by (auto simp: bnd_def)
    with assms(2) [of x] have "extends P s1 s" "\<forall>e. r = Inl e \<longrightarrow> E e"
      by (auto simp: good_def)
    with e1 show ?thesis by (blast intro: extends_trans)
  qed
qed

lemma good_if:
  "(c \<Longrightarrow> good P E a) \<Longrightarrow> (\<not> c \<Longrightarrow> good P E b) \<Longrightarrow> good P E (if c then a else b)"
  by simp

lemma good_weaken:
  "good P E m \<Longrightarrow> (\<And>e. E e \<Longrightarrow> E' e) \<Longrightarrow> good P E' m"
  by (auto simp: good_def)

lemma good_log_event: "P ev \<Longrightarrow> good P E (log_event ev)"
  by (auto simp: good_def log_event_def extends_def)

lemma good_set_env: "good P E (set_env name v)"
  by (auto simp: good_def set_env_def extends_def)

lemma good_host_getattr: "(\<And>h. E (lift_hexn h)) \<Longrightarrow> good P E (host_getattr H obj name)"
  by (auto simp: good_def host_getattr_def extends_def split: sum.splits)

lemma good_host_builtin: "(\<And>h. E (lift_hexn h)) \<Longrightarrow> good P E (host_builtin H name args)"
  by (auto simp: good_def host_builtin_def extends_def split: sum.splits)

lemma good_host_call:
  "(\<And>h. E (lift_hexn h)) \<Longrightarrow> P ev \<Longrightarrow> good P E (host_call H ev fn pos kw)"
  by (auto simp: good_def host_call_def extends_def split: sum.splits prod.splits)

lemma not_Break_lift [simp]: "not_Break (lift_hexn h)"
  by (cases h) (simp_all add: not_Break_def)

lemma not_Break_simps [simp]:
  "not_Break (ToolError m)" "not_Break (PyException c m)" "not_Break (PyBaseException c)"
  by (simp_all add: not_Break_def)

lemma good_hasattr: "good P not_Break (hasattr H obj name)"
  by (auto simp: good_def hasattr_def extends_def split: sum.splits hexn.splits if_splits)

lemma good_py_len: "good P not_Break (py_len H v)"
  by (cases v) (simp_all add: py_len_def good_ret good_raise good_host_builtin)

lemma good_py_sum: "good P not_Break (py_sum H v)"
  by (cases v) (simp_all add: py_sum_def good_ret good_raise good_host_builtin)

lemma not_Break_py_index: "py_index n v = Inl e \<Longrightarrow> not_Break e"
  by (auto simp: py_index_def Let_def split: if_splits)

lemma good_py_getitem: "good P not_Break (py_getitem H lst idx)"
  by (cases lst)
     (auto simp: py_getitem_def good_ret good_raise good_host_builtin not_Break_py_index
           split: sum.splits)

lemma good_py_iter: "good P not_Break (py_iter H v)"
  by (cases v)
     (auto simp: py_iter_def good_ret good_raise good_host_builtin
           intro!: good_bnd split: pyval.splits)

lemma good_py_truthy: "good P not_Break (py_truthy H v)"
  by (cases v)
     (auto simp: py_truthy_def good_ret good_raise good_host_builtin
           intro!: good_bnd split: pyval.splits)

lemma good_ref_method:
  "P (RefInvoked name) \<Longrightarrow> good P not_Break (ref_method H obj name arg)"
  by (simp add: ref_method_def good_bnd good_host_getattr good_host_call)

lemma good_resolve_attr:
  "P (AttrResolved name) \<Longrightarrow> good P not_Break (resolve_attr H obj name)"
  by (simp add: resolve_attr_def good_bnd good_host_getattr good_log_event)

lemma good_map_attr:
  "P (AttrResolved attr) \<Longrightarrow> good P not_Break (map_attr H attr items)"
  by (induction items) (simp_all add: good_ret good_bnd good_resolve_attr)

lemma not_Break_filter_mask: "filter_mask xs fs = Inl e \<Longrightarrow> not_Break e"
  by (induction xs fs arbitrary: e rule: filter_mask.induct)
     (auto split: sum.splits if_splits elim!: bindE.elims)

lemma good_lookup:
  "E e \<Longrightarrow> good P E (\<lambda>st. case env st name of None \<Rightarrow> raise e st | Some v \<Rightarrow> ret v st)"
  by (auto simp: good_def raise_def ret_def extends_def split: option.splits)

lemma ok_event_simps:
  "ok_event registry (RefInvoked ''get_interactable'')"
  "ok_event registry (RefInvoked ''get_keypoint'')"
  "ok_event registry (RefInvoked ''get_neighbour'')"
  "ok_event registry (AttrResolved name) = (\<not> startswith name ''__'')"
  "ok_event registry (ToolInvoked name) = (registry name \<noteq> None)"
  "ok_event registry (MethodInvoked cls method) = allowed_method cls method"
  by (simp_all add: ok_event_def)

lemma good_filter_case:
  "good P not_Break
     (case (items, flags) of
        (VList xs, VList fs) \<Rightarrow>
          (if length xs \<noteq> length fs then raise (ToolError a)
           else (case filter_mask xs fs of Inl e \<Rightarrow> raise e | Inr out \<Rightarrow> ret (VList out)))
      | _ \<Rightarrow> raise (ToolError b))"
  by (auto simp: good_ret good_raise not_Break_filter_mask split: pyval.splits sum.splits)

lemma good_eval:
  "good (ok_event registry) not_Break (eval_expr H frames e)"
  "good (ok_event registry) not_Break (eval_list H frames es)"
proof (induction H frames e and H frames es rule: eval_expr_eval_list.induct)
  case (8 H frames kvs)
  note IH = 8
  show ?case
    apply (subst eval_expr.simps)
    apply (intro good_if good_bnd good_raise good_ret good_ref_method good_hasattr
                 good_py_len good_py_sum good_py_getitem good_filter_case
                 ok_event_simps not_Break_simps)
    apply (auto simp: good_ret good_raise good_lookup good_resolve_attr good_map_attr
                      good_py_iter ok_event_simps
                intro: IH intro!: good_bnd split: pyval.splits)
    done
qed (simp_all add: good_ret good_raise good_bnd)

lemma good_eval_args:
  "good (ok_event registry) not_Break (eval_args H frames kvs)"
  by (induction kvs) (auto simp: good_ret intro!: good_bnd good_eval)

lemma good_wrap_ToolError: "good P E m \<Longrightarrow> good P not_Break (wrap_ToolError msg m)"
  unfolding good_def wrap_ToolError_def
  by (auto simp: not_Break_def split: prod.splits sum.splits if_splits)

lemma good_save_result: "good P not_Break (save_result kvs msg v)"
  by (auto simp: save_result_def good_ret good_raise good_set_env split: pyval.splits)

lemma good_step_call:
  "good (ok_event registry) not_Break (step_call H registry frames kvs)"
  unfolding step_call_def
  by (auto simp: good_raise good_save_result ok_event_simps
           intro!: good_bnd good_eval_args good_wrap_ToolError [where E = not_Break]
                   good_host_call
           split: pyval.splits option.splits)

lemma bnd_ret [simp]: "bnd (ret x) f = f x"
  by (simp add: bnd_def ret_def)

lemma bnd_raise [simp]: "bnd (raise e) f = raise e"
  by (simp add: bnd_def raise_def)

lemma good_step_call_method:
  "good (ok_event registry) not_Break (step_call_method H frames kvs)"
  unfolding step_call_method_def ensure_allowed_method_def
  by (auto simp: good_raise good_save_result ok_event_simps good_host_getattr
           intro!: good_bnd good_eval good_eval_args good_wrap_ToolError [where E = not_Break]
                   good_host_call
           split: pyval.splits)

lemma good_step_assign:
  "good (ok_event registry) not_Break (step_assign H frames kvs)"
  unfolding step_assign_def
  by (auto simp: good_raise good_set_env intro!: good_bnd good_eval)

lemma good_catch_Break:
  assumes "good P E m" and "\<And>st u s. m st = (Inr u, s) \<Longrightarrow> good P not_Break k"
  shows "good P not_Break
           (\<lambda>st. case m st of
                    (Inl e, s) \<Rightarrow> (if e = Break then (Inr (), s) else (Inl e, s))
                  | (Inr u, s) \<Rightarrow> k s)"
  unfolding good_def
proof (intro allI impI)
  fix st r s
  assume run: "(case m st of
                  (Inl e, s) \<Rightarrow> (if e = Break then (Inr (), s) else (Inl e, s))
                | (Inr u, s) \<Rightarrow> k s) = (r, s)"
  obtain r1 s1 where m: "m st = (r1, s1)" by (cases "m st")
  from assms(1) m have e1: "extends P st s1" by (auto simp: good_def)
  show "extends P st s \<and> (\<forall>e. r = Inl e \<longrightarrow> not_Break e)"
  proof (cases r1)
    case (Inl e)
    with run m e1 show ?thesis by (auto simp: not_Break_def split: if_splits)
  next
    case (Inr u)
    with run m have k: "k s1 = (r, s)" by simp
    from assms(2) m Inr have "good P not_Break k" by blast
    with k have "extends P s1 s" "\<forall>e. r = Inl e \<longrightarrow> not_Break e" by (auto simp: good_def)
    with e1 show ?thesis by (blast intro: extends_trans)
  qed
qed

lemma good_True: "good P E m \<Longrightarrow> good P (\<lambda>e. True) m"
  by (auto simp: good_def)

lemma good_steps:
  "good (ok_event registry) (\<lambda>e. True) (run_steps H registry frames ss)"
  "good (ok_event registry) (\<lambda>e. True) (run_step H registry frames step)"
  "good (ok_event registry) not_Break (foreach_loop H registry frames var items body)"
proof (induction H registry frames ss and H registry frames step
         and H registry frames var items body rule: run_steps_run_step_foreach_loop.induct)
  case (1 H registry frames)
  show ?case by (simp add: good_ret)
next
  case (2 H registry frames step rest)
  then show ?case by (simp add: good_bnd)
next
  case (3 H registry frames kvs)
  note IH = 3
  have nf: "\<not> False" by simp
  have L: "good (ok_event registry) (\<lambda>e. True)
             (foreach_loop H registry frames (str_val (dget kvs ''var'')) items body)"
    if "dget kvs ''op'' = VStr ''foreach''" "nonempty_str (dget kvs ''var'')"
       "dget_default kvs ''do'' (VList []) = VList body" for items body
    using good_True [OF IH(1) [OF _ _ _ that(1) _ refl that(3)]] that by simp
  have T: "good (ok_event registry) (\<lambda>e. True) (run_steps H registry frames ts)"
    if "dget kvs ''op'' = VStr ''if''" "dget_default kvs ''then'' (VList []) = VList ts"
       "dget_default kvs ''else'' (VList []) = VList es" for ts es
    using IH(2) [OF _ _ _ _ that(1) that(2) that(3) TrueI] that(1) by simp
  have E: "good (ok_event registry) (\<lambda>e. True) (run_steps H registry frames es)"
    if "dget kvs ''op'' = VStr ''if''" "dget_default kvs ''then'' (VList []) = VList ts"
       "dget_default kvs ''else'' (VList []) = VList es" for ts es
    using IH(3) [OF _ _ _ _ that(1) that(2) that(3) nf] that(1) by simp
  show ?case
    apply (subst run_step.simps)
    apply (intro good_if good_bnd good_raise TrueI
             good_True [OF good_step_call] good_True [OF good_step_call_method]
             good_True [OF good_step_assign] good_True [OF good_eval(1)]
             good_True [OF good_py_truthy])
    apply (auto simp: good_raise L T E
                intro!: good_bnd good_True [OF good_py_truthy] split: pyval.splits)
    done
next
  case (11 H registry frames var body)
  show ?case by (simp add: good_ret)
next
  case (12 H registry frames var item items body)
  show ?case
    apply (subst foreach_loop.simps)
    apply (rule good_catch_Break [where E = "\<lambda>e. True"])
     apply (intro good_bnd good_set_env 12(1))
    apply (rule 12(2))
     apply (rule sym, assumption)
    apply (rule refl)
    done
qed (simp_all add: good_raise)

subsection \<open>The allowlists\<close>

text \<open>
  A host for the examples: a frame has the three methods of the table and an attribute
  \<^verbatim>\<open>image\<close>, every call returns \<^verbatim>\<open>None\<close> and is counted, and no built-in is defined
  on an object. Its registry has one tool, \<^verbatim>\<open>click\<close>; there is one frame.
\<close>

definition demo_host :: "nat host" where
  "demo_host =
     \<lparr>h_getattr = (\<lambda>w obj name.
          if class_name obj = ''Frame'' \<and>
             name \<in> {''show_keypoints'', ''get_keypoint'', ''get_interactable'', ''image''}
          then Inr (VObj name 0)
          else Inl (HException ''AttributeError'' name)),
      h_call = (\<lambda>w fn pos kw. (Inr VNone, Suc w)),
      h_builtin = (\<lambda>w name args. Inl (HException ''TypeError'' name))\<rparr>"

definition demo_registry :: "string \<rightharpoonup> pyval" where
  "demo_registry = [''click'' \<mapsto> VObj ''function'' 0]"

definition demo_frames :: "pyval list" where
  "demo_frames = [VObj ''Frame'' 0]"

definition machine0 :: "nat machine" where
  "machine0 = \<lparr>env = Map.empty, world = 0, trace = []\<rparr>"

lemma execute_good:
  "\<exists>new. trace (snd (execute_stage3_program H registry frames program w tr)) = tr @ new
         \<and> list_all (ok_event registry) new"
proof -
  obtain r s where run: "execute_stage3_program H registry frames program w tr = (r, s)"
    by (cases "execute_stage3_program H registry frames program w tr")
  with good_steps(1) [of registry H frames "steps program"]
  have "extends (ok_event registry) \<lparr>env = Map.empty, world = w, trace = tr\<rparr> s"
    by (auto simp: good_def execute_stage3_program_def)
  with run show ?thesis by (simp add: extends_def)
qed

lemma call_unregistered:
  "dget kvs ''op'' = VStr ''call'' \<Longrightarrow> dget kvs ''tool'' = VStr name \<Longrightarrow>
   registry name = None \<Longrightarrow>
   run_step H registry frames (VDict kvs) st = (Inl (ToolError ''Tool not allowed''), st)"
  by (simp add: step_call_def raise_def)

lemma call_method_disallowed:
  "dget kvs ''op'' = VStr ''call_method'' \<Longrightarrow>
   eval_expr H frames (dget kvs ''target'') st = (Inr target, st1) \<Longrightarrow>
   \<not> (nonempty_str (dget kvs ''method'') \<and>
      allowed_method (class_name target) (str_val (dget kvs ''method''))) \<Longrightarrow>
   \<exists>m. run_step H registry frames (VDict kvs) st = (Inl (ToolError m), st1)"
  by (auto simp: step_call_method_def ensure_allowed_method_def bnd_def raise_def)

lemma attr_dunder:
  "map_of kvs ''var'' = None \<Longrightarrow> dget kvs ''ref'' = VStr ''attr'' \<Longrightarrow>
   dget kvs ''name'' = VStr name \<Longrightarrow> startswith name ''__'' \<Longrightarrow>
   eval_expr H frames (dget kvs ''obj'') st = (Inr obj, st1) \<Longrightarrow>
   eval_expr H frames (VDict kvs) st =
     (Inl (ToolError ''Dunder attribute access is not allowed''), st1)"
  by (simp add: bnd_def raise_def)

lemma map_attr_dunder:
  "map_of kvs ''var'' = None \<Longrightarrow> dget kvs ''ref'' = VNone \<Longrightarrow>
   dget kvs ''op'' = VStr ''map_attr'' \<Longrightarrow>
   dget kvs ''attr'' = VStr name \<Longrightarrow> startswith name ''__'' \<Longrightarrow>
   eval_expr H frames (dget kvs ''list'') st = (Inr items, st1) \<Longrightarrow>
   eval_expr H frames (VDict kvs) st =
     (Inl (ToolError ''map_attr.attr must be a non-dunder string''), st1)"
  by (simp add: bnd_def raise_def)

text \<open>
  C2. Whatever the program, the host, the registry and the frames, a run of
  \<^verbatim>\<open>execute_stage3_program\<close> only adds allowed events to the trace: every tool it calls
  is in the registry, every method a \<^verbatim>\<open>call_method\<close> step calls is in the table under
  the class name of its target, and no attribute that \<^verbatim>\<open>attr\<close> or \<^verbatim>\<open>map_attr\<close> reads
  begins with two underscores. A \<^verbatim>\<open>call\<close> step whose tool is not in the registry raises
  \<^verbatim>\<open>ToolError\<close> and leaves the machine as it was (no argument is evaluated, nothing is
  called); a \<^verbatim>\<open>call_method\<close> step whose method is not a non-empty string, or not in the
  table under the class name of the evaluated target, raises \<^verbatim>\<open>ToolError\<close> in the
  machine that the evaluation of the target left; \<^verbatim>\<open>attr\<close> and \<^verbatim>\<open>map_attr\<close> with a
  name that begins with two underscores raise \<^verbatim>\<open>ToolError\<close> once their operand is
  evaluated, and read nothing.
\<close>

theorem stage3_allowlists:
  "(\<exists>new. trace (snd (execute_stage3_program H registry frames program w tr)) = tr @ new
          \<and> list_all (ok_event registry) new)
   \<and> (dget kvs ''op'' = VStr ''call'' \<and> dget kvs ''tool'' = VStr name \<and> registry name = None
        \<longrightarrow> run_step H registry frames (VDict kvs) st
              = (Inl (ToolError ''Tool not allowed''), st))
   \<and> (dget kvs ''op'' = VStr ''call_method''
        \<and> eval_expr H frames (dget kvs ''target'') st = (Inr target, sa)
        \<and> \<not> (nonempty_str (dget kvs ''method'')
              \<and> allowed_method (class_name target) (str_val (dget kvs ''method'')))
        \<longrightarrow> (\<exists>m. run_step H registry frames (VDict kvs) st = (Inl (ToolError m), sa)))
   \<and> (map_of avs ''var'' = None \<and> dget avs ''ref'' = VStr ''attr''
        \<and> dget avs ''name'' = VStr aname \<and> startswith aname ''__''
        \<and> eval_expr H frames (dget avs ''obj'') st = (Inr obj, sb)
        \<longrightarrow> eval_expr H frames (VDict avs) st
              = (Inl (ToolError ''Dunder attribute access is not allowed''), sb))
   \<and> (map_of mvs ''var'' = None \<and> dget mvs ''ref'' = VNone
        \<and> dget mvs ''op'' = VStr ''map_attr''
        \<and> dget mvs ''attr'' = VStr mname \<and> startswith mname ''__''
        \<and> eval_expr H frames (dget mvs ''list'') st = (Inr items, sc)
        \<longrightarrow> eval_expr H frames (VDict mvs) st
              = (Inl (ToolError ''map_attr.attr must be a non-dunder string''), sc))"
  using execute_good [of H registry frames program w tr]
    call_unregistered [of kvs name registry H frames st]
    call_method_disallowed [of kvs H frames st target sa registry]
    attr_dunder [of avs aname H frames st obj sb]
    map_attr_dunder [of mvs mname H frames st items sc]
  by blast

text \<open>
  A run on the example host: a call of the registered tool with an attribute of the
  frame as argument, then a method of the table on the frame; and the four refusals.
\<close>

definition frame0 :: pyval where
  "frame0 = VDict [(''ref'', VStr ''frame''), (''id'', VInt 0)]"

definition demo_program :: Stage3Program where
  "demo_program =
     \<lparr>steps =
        [VDict [(''op'', VStr ''call''), (''tool'', VStr ''click''),
                (''args'', VDict [(''target'',
                   VDict [(''ref'', VStr ''attr''), (''obj'', frame0),
                          (''name'', VStr ''image'')])])],
         VDict [(''op'', VStr ''call_method''), (''target'', frame0),
                (''method'', VStr ''get_keypoint''),
                (''args'', VDict [(''id'', VInt 1)])]]\<rparr>"

lemma eval_frame0:
  "eval_expr demo_host demo_frames frame0 st = (Inr (VObj ''Frame'' 0), st)"
  by (simp add: frame0_def dget_def dget_default_def valid_frame_id_def demo_frames_def
        ret_def)

theorem stage3_allowlists_witness:
  "trace (snd (execute_stage3_program demo_host demo_registry demo_frames demo_program 0 []))
     = [AttrResolved ''image'', ToolInvoked ''click'', MethodInvoked ''Frame'' ''get_keypoint'']
   \<and> list_all (ok_event demo_registry)
       [AttrResolved ''image'', ToolInvoked ''click'', MethodInvoked ''Frame'' ''get_keypoint'']
   \<and> run_step demo_host demo_registry demo_frames
         (VDict [(''op'', VStr ''call''), (''tool'', VStr ''eval'')]) machine0
       = (Inl (ToolError ''Tool not allowed''), machine0)
   \<and> (\<exists>m. run_step demo_host demo_registry demo_frames
         (VDict [(''op'', VStr ''call_method''), (''target'', frame0),
                 (''method'', VStr ''get_interactables'')]) machine0
       = (Inl (ToolError m), machine0))
   \<and> eval_expr demo_host demo_frames
         (VDict [(''ref'', VStr ''attr''), (''obj'', frame0), (''name'', VStr ''__class__'')])
         machine0
       = (Inl (ToolError ''Dunder attribute access is not allowed''), machine0)
   \<and> eval_expr demo_host demo_frames
         (VDict [(''op'', VStr ''map_attr''), (''list'', VList [frame0]),
                 (''attr'', VStr ''__dict__'')])
         machine0
       = (Inl (ToolError ''map_attr.attr must be a non-dunder string''), machine0)"
proof -
  have run: "trace (snd (execute_stage3_program demo_host demo_registry demo_frames
                     demo_program 0 []))
     = [AttrResolved ''image'', ToolInvoked ''click'', MethodInvoked ''Frame'' ''get_keypoint'']"
    by code_simp
  have lst: "eval_expr demo_host demo_frames (VList [frame0]) machine0
               = (Inr (VList [VObj ''Frame'' 0]), machine0)"
    by (simp add: eval_frame0 bnd_def ret_def)
  have na: "\<not> allowed_method ''Frame'' ''get_interactables''"
    by (simp add: allowed_method_def ALLOWED_METHODS_def)
  show ?thesis
    using run lst na eval_frame0 [of machine0]
      stage3_allowlists [where H = demo_host and registry = demo_registry
        and frames = demo_frames and program = demo_program and w = 0 and tr = "[]"
        and kvs = "[(''op'', VStr ''call''), (''tool'', VStr ''eval'')]" and name = "''eval''"
        and st = machine0]
      stage3_allowlists [where H = demo_host and registry = demo_registry
        and frames = demo_frames and st = machine0 and sa = machine0
        and target = "VObj ''Frame'' 0"
        and kvs = "[(''op'', VStr ''call_method''), (''target'', frame0),
                    (''method'', VStr ''get_interactables'')]"
        and avs = "[(''ref'', VStr ''attr''), (''obj'', frame0),
                    (''name'', VStr ''__class__'')]"
        and aname = "''__class__''" and obj = "VObj ''Frame'' 0" and sb = machine0
        and mvs = "[(''op'', VStr ''map_attr''), (''list'', VList [frame0]),
                    (''attr'', VStr ''__dict__'')]"
        and mname = "''__dict__''" and items = "VList [VObj ''Frame'' 0]"
        and sc = machine0]
    by (simp add: dget_def dget_default_def demo_registry_def startswith_def)
qed

subsection \<open>Loops\<close>

fun isinstance_list :: "pyval \<Rightarrow> bool" where
  "isinstance_list (VList xs) = True"
| "isinstance_list v = False"

lemma foreach_not_list:
  "dget kvs ''op'' = VStr ''foreach'' \<Longrightarrow> nonempty_str (dget kvs ''var'') \<Longrightarrow>
   eval_expr H frames (dget kvs ''in'') st = (Inr v, sa) \<Longrightarrow> \<not> isinstance_list v \<Longrightarrow>
   run_step H registry frames (VDict kvs) st
     = (Inl (ToolError ''foreach.in must evaluate to a list''), sa)"
  by (cases v) (simp_all add: bnd_def raise_def)

lemma foreach_list:
  "dget kvs ''op'' = VStr ''foreach'' \<Longrightarrow> nonempty_str (dget kvs ''var'') \<Longrightarrow>
   eval_expr H frames (dget kvs ''in'') st = (Inr (VList items), sa) \<Longrightarrow>
   dget_default kvs ''do'' (VList []) = VList body \<Longrightarrow>
   run_step H registry frames (VDict kvs) st
     = foreach_loop H registry frames (str_val (dget kvs ''var'')) items body sa"
  by (simp add: bnd_def)

lemma foreach_loop_Cons:
  "foreach_loop H registry frames var (item # rest) body st =
     (case run_steps H registry frames body (st\<lparr>env := (env st)(var \<mapsto> item)\<rparr>) of
        (Inl e, s) \<Rightarrow> (if e = Break then (Inr (), s) else (Inl e, s))
      | (Inr u, s) \<Rightarrow> foreach_loop H registry frames var rest body s)"
  by (simp add: bnd_def set_env_def)

lemma foreach_loop_no_Break:
  "fst (foreach_loop H registry frames var items body st) \<noteq> Inl Break"
  using good_steps(3) [of registry H frames var items body]
  by (cases "foreach_loop H registry frames var items body st")
     (auto simp: good_def not_Break_def)

lemma foreach_step_no_Break:
  assumes "dget kvs ''op'' = VStr ''foreach''"
  shows "fst (run_step H registry frames (VDict kvs) st) \<noteq> Inl Break"
proof -
  have "good (ok_event registry) not_Break (run_step H registry frames (VDict kvs))"
    using assms
    by (auto simp: good_raise good_steps(3) intro!: good_bnd good_eval split: pyval.splits)
  then show ?thesis
    by (cases "run_step H registry frames (VDict kvs) st") (auto simp: good_def not_Break_def)
qed

text \<open>
  C8. A \<^verbatim>\<open>foreach\<close> step (with a loop variable that is a non-empty string) whose
  \<^verbatim>\<open>in\<close> expression evaluates to a value that is not a list raises \<^verbatim>\<open>ToolError\<close>. When
  it evaluates to a list and \<^verbatim>\<open>do\<close> is a list, the step is the loop over the items: no
  item, and the loop returns; otherwise the first item is bound to the loop variable in
  the environment of the machine, the body is run on that machine, and then either the
  loop goes on with the other items on the machine the body left, or the body raised
  \<^verbatim>\<open>_Break\<close> and the loop returns normally there, or the body raised something else and
  the loop raises it. So a loop, and a \<^verbatim>\<open>foreach\<close> step, never raises \<^verbatim>\<open>_Break\<close>: a
  \<^verbatim>\<open>break\<close> ends the nearest loop around it, and the loops around that one go on.
\<close>

theorem foreach_semantics:
  "(dget kvs ''op'' = VStr ''foreach'' \<and> nonempty_str (dget kvs ''var'')
      \<and> eval_expr H frames (dget kvs ''in'') st = (Inr v, sa) \<and> \<not> isinstance_list v
      \<longrightarrow> run_step H registry frames (VDict kvs) st
            = (Inl (ToolError ''foreach.in must evaluate to a list''), sa))
   \<and> (dget kvs ''op'' = VStr ''foreach'' \<and> nonempty_str (dget kvs ''var'')
      \<and> eval_expr H frames (dget kvs ''in'') st = (Inr (VList items), sa)
      \<and> dget_default kvs ''do'' (VList []) = VList body
      \<longrightarrow> run_step H registry frames (VDict kvs) st
            = foreach_loop H registry frames (str_val (dget kvs ''var'')) items body sa)
   \<and> foreach_loop H registry frames var [] body st = (Inr (), st)
   \<and> foreach_loop H registry frames var (item # rest) body st =
       (case run_steps H registry frames body (st\<lparr>env := (env st)(var \<mapsto> item)\<rparr>) of
          (Inl e, s) \<Rightarrow> (if e = Break then (Inr (), s) else (Inl e, s))
        | (Inr u, s) \<Rightarrow> foreach_loop H registry frames var rest body s)
   \<and> fst (foreach_loop H registry frames var items body st) \<noteq> Inl Break
   \<and> (dget kvs ''op'' = VStr ''foreach''
      \<longrightarrow> fst (run_step H registry frames (VDict kvs) st) \<noteq> Inl Break)"
  using foreach_not_list [of kvs H frames st v sa registry]
    foreach_list [of kvs H frames st items sa body registry]
    foreach_loop_Cons [of H registry frames var item rest body st]
    foreach_loop_no_Break [of H registry frames var items body st]
    foreach_step_no_Break [of kvs H registry frames st]
  by (simp add: ret_def)

text \<open>
  Two loops, one in the other: the inner one calls the tool and breaks, with a second
  call after the \<^verbatim>\<open>break\<close>; a method call follows the outer loop. The tool is called
  once for each item of the outer loop, the method once, and the variables keep the
  last values they were given.
\<close>

definition inner_loop :: pyval where
  "inner_loop =
     VDict [(''op'', VStr ''foreach''), (''var'', VStr ''y''),
            (''in'', VList [VInt 10, VInt 20]),
            (''do'', VList
               [VDict [(''op'', VStr ''call''), (''tool'', VStr ''click''),
                       (''args'', VDict [(''n'', VDict [(''var'', VStr ''y'')])])],
                VDict [(''op'', VStr ''break'')],
                VDict [(''op'', VStr ''call''), (''tool'', VStr ''click'')]])]"

definition outer_loop :: pyval where
  "outer_loop =
     VDict [(''op'', VStr ''foreach''), (''var'', VStr ''x''),
            (''in'', VList [VInt 1, VInt 2]), (''do'', VList [inner_loop])]"

definition after_loop :: pyval where
  "after_loop =
     VDict [(''op'', VStr ''call_method''), (''target'', frame0),
            (''method'', VStr ''get_keypoint''),
            (''args'', VDict [(''id'', VDict [(''var'', VStr ''x'')])])]"

theorem foreach_semantics_witness:
  "run_step demo_host demo_registry demo_frames
       (VDict [(''op'', VStr ''foreach''), (''var'', VStr ''x''), (''in'', VInt 3)]) machine0
     = (Inl (ToolError ''foreach.in must evaluate to a list''), machine0)
   \<and> run_step demo_host demo_registry demo_frames outer_loop machine0
     = foreach_loop demo_host demo_registry demo_frames ''x'' [VInt 1, VInt 2] [inner_loop]
         machine0
   \<and> fst (run_step demo_host demo_registry demo_frames outer_loop machine0) \<noteq> Inl Break
   \<and> fst (execute_stage3_program demo_host demo_registry demo_frames
            \<lparr>steps = [outer_loop, after_loop]\<rparr> 0 []) = Inr ()
   \<and> trace (snd (execute_stage3_program demo_host demo_registry demo_frames
            \<lparr>steps = [outer_loop, after_loop]\<rparr> 0 []))
     = [ToolInvoked ''click'', ToolInvoked ''click'', MethodInvoked ''Frame'' ''get_keypoint'']
   \<and> env (snd (execute_stage3_program demo_host demo_registry demo_frames
            \<lparr>steps = [outer_loop, after_loop]\<rparr> 0 [])) ''x'' = Some (VInt 2)
   \<and> env (snd (execute_stage3_program demo_host demo_registry demo_frames
            \<lparr>steps = [outer_loop, after_loop]\<rparr> 0 [])) ''y'' = Some (VInt 10)"
proof -
  have a: "fst (execute_stage3_program demo_host demo_registry demo_frames
            \<lparr>steps = [outer_loop, after_loop]\<rparr> 0 []) = Inr ()"
    by code_simp
  have b: "trace (snd (execute_stage3_program demo_host demo_registry demo_frames
            \<lparr>steps = [outer_loop, after_loop]\<rparr> 0 []))
     = [ToolInvoked ''click'', ToolInvoked ''click'', MethodInvoked ''Frame'' ''get_keypoint'']"
    by code_simp
  have c: "env (snd (execute_stage3_program demo_host demo_registry demo_frames
            \<lparr>steps = [outer_loop, after_loop]\<rparr> 0 [])) ''x'' = Some (VInt 2)"
    by code_simp
  have d: "env (snd (execute_stage3_program demo_host demo_registry demo_frames
            \<lparr>steps = [outer_loop, after_loop]\<rparr> 0 [])) ''y'' = Some (VInt 10)"
    by code_simp
  note T1 = foreach_semantics [where H = demo_host and registry = demo_registry
        and frames = demo_frames and st = machine0 and sa = machine0 and v = "VInt 3"
        and kvs = "[(''op'', VStr ''foreach''), (''var'', VStr ''x''), (''in'', VInt 3)]"]
  note T2 = foreach_semantics [where H = demo_host and registry = demo_registry
        and frames = demo_frames and st = machine0 and sa = machine0
        and items = "[VInt 1, VInt 2]" and body = "[inner_loop]"
        and kvs = "[(''op'', VStr ''foreach''), (''var'', VStr ''x''),
                    (''in'', VList [VInt 1, VInt 2]), (''do'', VList [inner_loop])]"]
  have p1: "dget [(''op'', VStr ''foreach''), (''var'', VStr ''x''), (''in'', VInt 3)] ''op''
              = VStr ''foreach''
      \<and> nonempty_str
          (dget [(''op'', VStr ''foreach''), (''var'', VStr ''x''), (''in'', VInt 3)] ''var'')
      \<and> eval_expr demo_host demo_frames
          (dget [(''op'', VStr ''foreach''), (''var'', VStr ''x''), (''in'', VInt 3)] ''in'')
          machine0 = (Inr (VInt 3), machine0)
      \<and> \<not> isinstance_list (VInt 3)"
    by (simp add: dget_def dget_default_def ret_def)
  have p2: "dget [(''op'', VStr ''foreach''), (''var'', VStr ''x''),
                  (''in'', VList [VInt 1, VInt 2]), (''do'', VList [inner_loop])] ''op''
              = VStr ''foreach''
      \<and> nonempty_str
          (dget [(''op'', VStr ''foreach''), (''var'', VStr ''x''),
                 (''in'', VList [VInt 1, VInt 2]), (''do'', VList [inner_loop])] ''var'')
      \<and> eval_expr demo_host demo_frames
          (dget [(''op'', VStr ''foreach''), (''var'', VStr ''x''),
                 (''in'', VList [VInt 1, VInt 2]), (''do'', VList [inner_loop])] ''in'')
          machine0 = (Inr (VList [VInt 1, VInt 2]), machine0)
      \<and> dget_default [(''op'', VStr ''foreach''), (''var'', VStr ''x''),
                 (''in'', VList [VInt 1, VInt 2]), (''do'', VList [inner_loop])] ''do''
            (VList []) = VList [inner_loop]"
    by (simp add: dget_def dget_default_def ret_def bnd_def)
  have v: "str_val (dget [(''op'', VStr ''foreach''), (''var'', VStr ''x''),
                 (''in'', VList [VInt 1, VInt 2]), (''do'', VList [inner_loop])] ''var'')
             = ''x''"
    by (simp add: dget_def dget_default_def)
  have g1: "run_step demo_host demo_registry demo_frames
       (VDict [(''op'', VStr ''foreach''), (''var'', VStr ''x''), (''in'', VInt 3)]) machine0
     = (Inl (ToolError ''foreach.in must evaluate to a list''), machine0)"
    using T1 p1 by blast
  have g2: "run_step demo_host demo_registry demo_frames outer_loop machine0
     = foreach_loop demo_host demo_registry demo_frames ''x'' [VInt 1, VInt 2] [inner_loop]
         machine0"
    unfolding outer_loop_def using T2 p2 unfolding v by blast
  have g3: "fst (run_step demo_host demo_registry demo_frames outer_loop machine0)
              \<noteq> Inl Break"
    unfolding outer_loop_def using T2 p2 by blast
  show ?thesis
    using a b c d g1 g2 g3 by blast
qed

subsection \<open>A break outside every loop\<close>

text \<open>
  In the words of the specification: the steps contain a \<^verbatim>\<open>break\<close> step that is not
  enclosed in any \<^verbatim>\<open>foreach\<close>, at the top or in a branch of an \<^verbatim>\<open>if\<close>.
\<close>

function free_break :: "pyval list \<Rightarrow> bool" where
  "free_break [] = False"
| "free_break (step # rest) =
     ((case step of
         VDict kvs \<Rightarrow>
           dget kvs ''op'' = VStr ''break'' \<or>
           (dget kvs ''op'' = VStr ''if'' \<and>
            ((case dget_default kvs ''then'' (VList []) of
                VList ts \<Rightarrow> free_break ts | _ \<Rightarrow> False) \<or>
             (case dget_default kvs ''else'' (VList []) of
                VList es \<Rightarrow> free_break es | _ \<Rightarrow> False)))
       | _ \<Rightarrow> False)
      \<or> free_break rest)"
  by pat_completeness auto

termination
  by (relation "measure (size_list size)") (auto dest: size_steps)

definition untaken_program :: Stage3Program where
  "untaken_program =
     \<lparr>steps = [VDict [(''op'', VStr ''if''), (''cond'', VBool False),
                       (''then'', VList [VDict [(''op'', VStr ''break'')]])]]\<rparr>"

definition failing_program :: Stage3Program where
  "failing_program =
     \<lparr>steps = [VDict [(''op'', VStr ''call''), (''tool'', VStr ''eval'')],
               VDict [(''op'', VStr ''break'')]]\<rparr>"

definition break_program :: Stage3Program where
  "break_program =
     \<lparr>steps = [VDict [(''op'', VStr ''assign''), (''var'', VStr ''z''), (''value'', VInt 1)],
               VDict [(''op'', VStr ''if''), (''cond'', VDict [(''var'', VStr ''z'')]),
                      (''then'', VList [VDict [(''op'', VStr ''break'')]])],
               VDict [(''op'', VStr ''call''), (''tool'', VStr ''click'')]]\<rparr>"

lemma bnd_assoc: "bnd (bnd m f) g = bnd m (\<lambda>x. bnd (f x) g)"
  by (auto simp: bnd_def fun_eq_iff split: prod.splits sum.splits)

lemma run_steps_append:
  "run_steps H registry frames (xs @ ys) =
     bnd (run_steps H registry frames xs) (\<lambda>_. run_steps H registry frames ys)"
  by (induction xs) (simp_all add: bnd_assoc)

lemma break_step:
  "dget kvs ''op'' = VStr ''break'' \<Longrightarrow>
   run_step H registry frames (VDict kvs) st = (Inl Break, st)"
  by (simp add: raise_def)

lemma if_step_Break:
  "dget kvs ''op'' = VStr ''if'' \<Longrightarrow>
   eval_expr H frames (dget kvs ''cond'') st = (Inr c, sa) \<Longrightarrow>
   py_truthy H c sa = (Inr b, sb) \<Longrightarrow>
   dget_default kvs ''then'' (VList []) = VList ts \<Longrightarrow>
   dget_default kvs ''else'' (VList []) = VList es \<Longrightarrow>
   run_steps H registry frames (if b then ts else es) sb = (Inl Break, sc) \<Longrightarrow>
   run_step H registry frames (VDict kvs) st = (Inl Break, sc)"
  by (simp add: bnd_def split: if_splits)

lemma execute_Break:
  "steps program = pre @ step # post \<Longrightarrow>
   run_steps H registry frames pre \<lparr>env = Map.empty, world = w, trace = tr\<rparr> = (Inr (), sd) \<Longrightarrow>
   run_step H registry frames step sd = (Inl Break, se) \<Longrightarrow>
   execute_stage3_program H registry frames program w tr = (Inl Break, se)"
  by (simp add: execute_stage3_program_def run_steps_append bnd_def)

text \<open>
  C9 as it is worded fails. Both programs pass \<^verbatim>\<open>validate_stage3\<close> and contain a
  \<^verbatim>\<open>break\<close> outside every \<^verbatim>\<open>foreach\<close>. In the first it stands in the branch of an
  \<^verbatim>\<open>if\<close> that is not taken, and \<^verbatim>\<open>execute_stage3_program\<close> returns; in the second a
  step before it calls a tool that is not registered, and what is raised is that
  \<^verbatim>\<open>ToolError\<close>.
\<close>

theorem break_not_reached_counterexample:
  "free_break (steps untaken_program)
   \<and> validate_stage3 (VDict [(''steps'', VList (steps untaken_program))]) = Inr untaken_program
   \<and> fst (execute_stage3_program demo_host demo_registry demo_frames untaken_program 0 [])
       = Inr ()
   \<and> free_break (steps failing_program)
   \<and> validate_stage3 (VDict [(''steps'', VList (steps failing_program))]) = Inr failing_program
   \<and> fst (execute_stage3_program demo_host demo_registry demo_frames failing_program 0 [])
       = Inl (ToolError ''Tool not allowed'')"
  by code_simp

text \<open>
  C9, amended. When the run reaches a \<^verbatim>\<open>break\<close> step that no \<^verbatim>\<open>foreach\<close> encloses,
  \<^verbatim>\<open>execute_stage3_program\<close> raises \<^verbatim>\<open>_Break\<close> to its caller. A \<^verbatim>\<open>break\<close> step raises
  it; an \<^verbatim>\<open>if\<close> step raises it when the branch it takes does; and the program raises
  it when the steps before have returned and the next step raises it. \<^verbatim>\<open>_Break\<close> is
  neither a \<^verbatim>\<open>ToolError\<close> nor a \<^verbatim>\<open>HalliganError\<close>.
\<close>

theorem break_outside_foreach:
  "(dget kvs ''op'' = VStr ''break''
      \<longrightarrow> run_step H registry frames (VDict kvs) st = (Inl Break, st))
   \<and> (dget ivs ''op'' = VStr ''if''
      \<and> eval_expr H frames (dget ivs ''cond'') st = (Inr c, sa)
      \<and> py_truthy H c sa = (Inr b, sb)
      \<and> dget_default ivs ''then'' (VList []) = VList ts
      \<and> dget_default ivs ''else'' (VList []) = VList es
      \<and> run_steps H registry frames (if b then ts else es) sb = (Inl Break, sc)
      \<longrightarrow> run_step H registry frames (VDict ivs) st = (Inl Break, sc))
   \<and> (steps program = pre @ step # post
      \<and> run_steps H registry frames pre \<lparr>env = Map.empty, world = w, trace = tr\<rparr>
          = (Inr (), sd)
      \<and> run_step H registry frames step sd = (Inl Break, se)
      \<longrightarrow> execute_stage3_program H registry frames program w tr = (Inl Break, se))
   \<and> \<not> is_ToolError Break \<and> \<not> is_HalliganError Break"
  using break_step [of kvs H registry frames st]
    if_step_Break [of ivs H frames st c sa b sb ts es registry sc]
    execute_Break [of program pre step post H registry frames w tr sd se]
  by simp

text \<open>
  A program that assigns 1 to \<^verbatim>\<open>z\<close>, then breaks in the branch taken when \<^verbatim>\<open>z\<close> is
  true, then would call a tool: \<^verbatim>\<open>_Break\<close> reaches the caller and the tool is not called.
\<close>

theorem break_outside_foreach_witness:
  "run_step demo_host demo_registry demo_frames (VDict [(''op'', VStr ''break'')]) machine0
     = (Inl Break, machine0)
   \<and> run_step demo_host demo_registry demo_frames
        (VDict [(''op'', VStr ''if''), (''cond'', VDict [(''var'', VStr ''z'')]),
                (''then'', VList [VDict [(''op'', VStr ''break'')]])])
        \<lparr>env = [''z'' \<mapsto> VInt 1], world = 0, trace = []\<rparr>
     = (Inl Break, \<lparr>env = [''z'' \<mapsto> VInt 1], world = 0, trace = []\<rparr>)
   \<and> execute_stage3_program demo_host demo_registry demo_frames break_program 0 []
     = (Inl Break, \<lparr>env = [''z'' \<mapsto> VInt 1], world = 0, trace = []\<rparr>)"
proof -
  let ?m = "\<lparr>env = [''z'' \<mapsto> VInt 1], world = 0::nat, trace = []\<rparr>"
  let ?brk = "[(''op'', VStr ''break'')]"
  let ?ifs = "[(''op'', VStr ''if''), (''cond'', VDict [(''var'', VStr ''z'')]),
               (''then'', VList [VDict ?brk])]"
  let ?asg = "VDict [(''op'', VStr ''assign''), (''var'', VStr ''z''), (''value'', VInt 1)]"
  let ?cal = "VDict [(''op'', VStr ''call''), (''tool'', VStr ''click'')]"
  note T1 = break_outside_foreach [where H = demo_host and registry = demo_registry
      and frames = demo_frames and kvs = ?brk and st = machine0]
  note T2 = break_outside_foreach [where H = demo_host and registry = demo_registry
      and frames = demo_frames and ivs = ?ifs and st = ?m and sa = ?m and sb = ?m
      and sc = ?m and c = "VInt 1" and b = True and ts = "[VDict ?brk]" and es = "[]"
      and program = break_program and pre = "[?asg]" and step = "VDict ?ifs"
      and post = "[?cal]" and w = 0 and tr = "[]" and sd = ?m and se = ?m]
  have p1: "dget ?brk ''op'' = VStr ''break''"
    by (simp add: dget_def dget_default_def)
  have g1: "run_step demo_host demo_registry demo_frames (VDict ?brk) machine0
              = (Inl Break, machine0)"
    using T1 p1 by blast
  have q1: "run_steps demo_host demo_registry demo_frames (if True then [VDict ?brk] else []) ?m
              = (Inl Break, ?m)"
    by (simp add: dget_def dget_default_def bnd_def raise_def)
  have p2: "dget ?ifs ''op'' = VStr ''if''
      \<and> eval_expr demo_host demo_frames (dget ?ifs ''cond'') ?m = (Inr (VInt 1), ?m)
      \<and> py_truthy demo_host (VInt 1) ?m = (Inr True, ?m)
      \<and> dget_default ?ifs ''then'' (VList []) = VList [VDict ?brk]
      \<and> dget_default ?ifs ''else'' (VList []) = VList []"
    by (simp add: dget_def dget_default_def ret_def py_truthy_def)
  have g2: "run_step demo_host demo_registry demo_frames (VDict ?ifs) ?m = (Inl Break, ?m)"
    using T2 p2 q1 by blast
  have p3: "steps break_program = [?asg] @ VDict ?ifs # [?cal]
      \<and> run_steps demo_host demo_registry demo_frames [?asg]
            \<lparr>env = Map.empty, world = 0, trace = []\<rparr> = (Inr (), ?m)"
    by (simp add: break_program_def dget_def dget_default_def step_assign_def bnd_def
          ret_def set_env_def)
  have g3: "execute_stage3_program demo_host demo_registry demo_frames break_program 0 []
              = (Inl Break, ?m)"
    using T2 p3 g2 by blast
  show ?thesis
    using g1 g2 g3 by blast
qed

section \<open>Stage orchestrators (stages/stage1.py, stage2.py, stage3.py)\<close>

text \<open>
  The agent is a parameter: a call with a prompt returns a response or raises, and
  changes the agent; \<^verbatim>\<open>reset\<close> changes the agent and does not raise, as
  \<^verbatim>\<open>GPTAgent.reset\<close>, which empties the history. The images and captions are the same
  at every call and are left out. What an orchestrator does with the agent is recorded
  in a list of events that no code reads: a call with its prompt, a reset, an exception
  caught by the \<^verbatim>\<open>except\<close> clause of the loop.
\<close>

record 'a agent =
  agent_call :: "'a \<Rightarrow> string \<Rightarrow> (exn + string option) \<times> 'a"
  agent_reset :: "'a \<Rightarrow> 'a"

datatype oevent = Called string | Reset | Caught exn

record ('a, 's) ostate =
  agent_st :: 'a
  subject :: 's
  events :: "oevent list"

definition call_agent ::
  "'a agent \<Rightarrow> string \<Rightarrow> ('a, 's) ostate \<Rightarrow> (exn + string option) \<times> ('a, 's) ostate" where
  "call_agent A prompt st =
     (case agent_call A (agent_st st) prompt of
        (r, a) \<Rightarrow> (r, st\<lparr>agent_st := a, events := events st @ [Called prompt]\<rparr>))"

definition reset_agent :: "'a agent \<Rightarrow> ('a, 's) ostate \<Rightarrow> ('a, 's) ostate" where
  "reset_agent A st =
     st\<lparr>agent_st := agent_reset A (agent_st st), events := events st @ [Reset]\<rparr>"

definition caught :: "exn \<Rightarrow> ('a, 's) ostate \<Rightarrow> ('a, 's) ostate" where
  "caught e st = st\<lparr>events := events st @ [Caught e]\<rparr>"

text \<open>\<^verbatim>\<open>str(exc)\<close>, and the two feedback prompts.\<close>

fun str_exn :: "exn \<Rightarrow> string" where
  "str_exn (HalliganError m) = m"
| "str_exn (ConfigError m) = m"
| "str_exn (ParseError m) = m"
| "str_exn (ValidationError m) = m"
| "str_exn (UnsafeTargetError m) = m"
| "str_exn (ToolError m) = m"
| "str_exn Break = []"
| "str_exn (PyException c m) = m"
| "str_exn (PyBaseException c) = []"

definition invalid_prompt :: "exn \<Rightarrow> string" where
  "invalid_prompt e =
     ''Your previous output was invalid.\<newline>Error: '' @ str_exn e @
     ''\<newline>\<newline>Please output ONLY valid JSON that matches the required schema.\<newline>'' @
     ''Do not include markdown fences or any extra text.''"

definition failed_prompt :: "exn \<Rightarrow> string" where
  "failed_prompt e =
     ''Your previous output failed to parse/validate/execute.\<newline>Error: '' @ str_exn e @
     ''\<newline>\<newline>Please output ONLY valid JSON that matches the required schema.\<newline>'' @
     ''Do not include markdown fences or any extra text.''"

text \<open>\<^verbatim>\<open>raise last_error if last_error else RuntimeError(...)\<close>.\<close>

definition last_or :: "exn option \<Rightarrow> string \<Rightarrow> exn" where
  "last_or last_error msg =
     (case last_error of Some e \<Rightarrow> e | None \<Rightarrow> PyException ''RuntimeError'' msg)"

subsection \<open>Stage 1\<close>

text \<open>
  The body of the \<^verbatim>\<open>try\<close>. The frames are of a class that is not in the sources:
  \<open>annotate\<close> stands for the two loops that store the descriptions and the relations
  in them, which may raise and leave the frames changed.
\<close>

definition stage1_try ::
  "json_loads \<Rightarrow> 'a agent \<Rightarrow> (Stage1Result \<Rightarrow> 'f \<Rightarrow> exn option \<times> 'f) \<Rightarrow> int
     \<Rightarrow> string option \<Rightarrow> ('a, 'f) ostate \<Rightarrow> (exn + string) \<times> ('a, 'f) ostate" where
  "stage1_try loads A annotate n response st =
     (case bindE (parse_json_from_response loads response) (\<lambda>data. validate_stage1 data n) of
        Inl e \<Rightarrow> (Inl e, st)
      | Inr result \<Rightarrow>
          (case annotate result (subject st) of
             (Some e, f) \<Rightarrow> (Inl e, st\<lparr>subject := f\<rparr>)
           | (None, f) \<Rightarrow> (Inr (objective result), reset_agent A (st\<lparr>subject := f\<rparr>))))"

text \<open>The loop \<^verbatim>\<open>for attempt in range(3)\<close> with \<open>k\<close> turns left, and what follows it.\<close>

fun stage1_attempts ::
  "json_loads \<Rightarrow> 'a agent \<Rightarrow> (Stage1Result \<Rightarrow> 'f \<Rightarrow> exn option \<times> 'f) \<Rightarrow> int
     \<Rightarrow> nat \<Rightarrow> string \<Rightarrow> exn option \<Rightarrow> ('a, 'f) ostate
     \<Rightarrow> (exn + string) \<times> ('a, 'f) ostate" where
  "stage1_attempts loads A annotate n 0 prompt last_error st =
     (Inl (last_or last_error ''Stage 1 failed without a captured error''), reset_agent A st)"
| "stage1_attempts loads A annotate n (Suc k) prompt last_error st =
     (case call_agent A prompt st of
        (Inl e, s) \<Rightarrow> (Inl e, s)
      | (Inr response, s) \<Rightarrow>
          (case stage1_try loads A annotate n response s of
             (Inr result, t) \<Rightarrow> (Inr result, t)
           | (Inl e, t) \<Rightarrow>
               if is_ParseError e \<or> is_ValidationError e
               then stage1_attempts loads A annotate n k (invalid_prompt e) (Some e) (caught e t)
               else (Inl e, t)))"

definition objective_identification ::
  "json_loads \<Rightarrow> 'a agent \<Rightarrow> (Stage1Result \<Rightarrow> 'f \<Rightarrow> exn option \<times> 'f) \<Rightarrow> int
     \<Rightarrow> string \<Rightarrow> ('a, 'f) ostate \<Rightarrow> (exn + string) \<times> ('a, 'f) ostate" where
  "objective_identification loads A annotate n prompt st =
     stage1_attempts loads A annotate n 3 prompt None st"

subsection \<open>Stage 2\<close>

definition stage2_try ::
  "json_loads \<Rightarrow> 'a agent \<Rightarrow> string set \<Rightarrow> string set \<Rightarrow> string option
     \<Rightarrow> ('a, frame list) ostate \<Rightarrow> (exn + unit) \<times> ('a, frame list) ostate" where
  "stage2_try loads A fi ei response st =
     (case bindE (parse_json_from_response loads response)
             (\<lambda>data. validate_stage2 fi ei data (int (length (subject st)))) of
        Inl e \<Rightarrow> (Inl e, st)
      | Inr plan \<Rightarrow>
          (case apply_stage2_plan (subject st) plan of
             (Inl e, frames) \<Rightarrow> (Inl e, st\<lparr>subject := frames\<rparr>)
           | (Inr u, frames) \<Rightarrow> (Inr (), reset_agent A (st\<lparr>subject := frames\<rparr>))))"

fun stage2_attempts ::
  "json_loads \<Rightarrow> 'a agent \<Rightarrow> string set \<Rightarrow> string set \<Rightarrow> nat \<Rightarrow> string \<Rightarrow> exn option
     \<Rightarrow> ('a, frame list) ostate \<Rightarrow> (exn + unit) \<times> ('a, frame list) ostate" where
  "stage2_attempts loads A fi ei 0 prompt last_error st =
     (Inl (last_or last_error ''Stage 2 failed without a captured error''), reset_agent A st)"
| "stage2_attempts loads A fi ei (Suc k) prompt last_error st =
     (case call_agent A prompt st of
        (Inl e, s) \<Rightarrow> (Inl e, s)
      | (Inr response, s) \<Rightarrow>
          (case stage2_try loads A fi ei response s of
             (Inr u, t) \<Rightarrow> (Inr (), t)
           | (Inl e, t) \<Rightarrow>
               if is_ParseError e \<or> is_ValidationError e
               then stage2_attempts loads A fi ei k (invalid_prompt e) (Some e) (caught e t)
               else (Inl e, t)))"

definition structure_abstraction ::
  "json_loads \<Rightarrow> 'a agent \<Rightarrow> string set \<Rightarrow> string set \<Rightarrow> string
     \<Rightarrow> ('a, frame list) ostate \<Rightarrow> (exn + unit) \<times> ('a, frame list) ostate" where
  "structure_abstraction loads A fi ei prompt st =
     stage2_attempts loads A fi ei 3 prompt None st"

subsection \<open>Stage 3\<close>

text \<open>
  \<^verbatim>\<open>vision_tools\<close> is, in \<^verbatim>\<open>solution_composition\<close>, the string that lists the vision
  tools for the prompt, and a string has no attribute \<^verbatim>\<open>set_agent\<close>:
  \<^verbatim>\<open>vision_tools.set_agent(agent)\<close> raises \<^verbatim>\<open>AttributeError\<close>.
\<close>

definition vision_tools_set_agent :: "exn + unit" where
  "vision_tools_set_agent =
     Inl (PyException ''AttributeError'' ''str object has no attribute set_agent'')"

text \<open>The body of the \<^verbatim>\<open>try\<close>, which here begins with a reset and holds the call.\<close>

definition stage3_try ::
  "json_loads \<Rightarrow> 'a agent \<Rightarrow> 'w host \<Rightarrow> (string \<rightharpoonup> pyval) \<Rightarrow> pyval list \<Rightarrow> string
     \<Rightarrow> ('a, 'w) ostate \<Rightarrow> (exn + unit) \<times> ('a, 'w) ostate" where
  "stage3_try loads A H registry frames prompt st =
     (case call_agent A prompt (reset_agent A st) of
        (Inl e, s) \<Rightarrow> (Inl e, s)
      | (Inr response, s) \<Rightarrow>
          (case bindE (parse_json_from_response loads response) validate_stage3 of
             Inl e \<Rightarrow> (Inl e, s)
           | Inr program \<Rightarrow>
               (case vision_tools_set_agent of
                  Inl e \<Rightarrow> (Inl e, reset_agent A s)
                | Inr u \<Rightarrow>
                    (case execute_stage3_program H registry frames program
                            (subject (reset_agent A s)) [] of
                       (Inl e, m) \<Rightarrow> (Inl e, (reset_agent A s)\<lparr>subject := world m\<rparr>)
                     | (Inr v, m) \<Rightarrow>
                         (Inr (), reset_agent A ((reset_agent A s)\<lparr>subject := world m\<rparr>))))))"

fun stage3_attempts ::
  "json_loads \<Rightarrow> 'a agent \<Rightarrow> 'w host \<Rightarrow> (string \<rightharpoonup> pyval) \<Rightarrow> pyval list \<Rightarrow> nat \<Rightarrow> string
     \<Rightarrow> exn option \<Rightarrow> ('a, 'w) ostate \<Rightarrow> (exn + unit) \<times> ('a, 'w) ostate" where
  "stage3_attempts loads A H registry frames 0 prompt feedback st =
     (Inl (last_or feedback ''Stage 3 failed without a captured error''), reset_agent A st)"
| "stage3_attempts loads A H registry frames (Suc k) prompt feedback st =
     (case stage3_try loads A H registry frames prompt st of
        (Inr u, t) \<Rightarrow> (Inr (), t)
      | (Inl e, t) \<Rightarrow>
          if is_ParseError e \<or> is_ValidationError e \<or> is_ToolError e \<or> is_Exception e
          then stage3_attempts loads A H registry frames k (failed_prompt e) (Some e)
                 (caught e t)
          else (Inl e, t))"

definition solution_composition ::
  "json_loads \<Rightarrow> 'a agent \<Rightarrow> 'w host \<Rightarrow> (string \<rightharpoonup> pyval) \<Rightarrow> pyval list \<Rightarrow> string
     \<Rightarrow> ('a, 'w) ostate \<Rightarrow> (exn + unit) \<times> ('a, 'w) ostate" where
  "solution_composition loads A H registry frames prompt st =
     stage3_attempts loads A H registry frames 4 prompt None st"

subsection \<open>The events of a run\<close>

fun calls :: "oevent list \<Rightarrow> nat" where
  "calls [] = 0"
| "calls (Called p # es) = Suc (calls es)"
| "calls (ev # es) = calls es"

fun caught_errors :: "oevent list \<Rightarrow> exn list" where
  "caught_errors [] = []"
| "caught_errors (Caught e # es) = e # caught_errors es"
| "caught_errors (ev # es) = caught_errors es"

text \<open>
  In the words of the specification: once an exception is caught, the agent is reset
  before it is called again. \<open>pending\<close> says that an exception was caught and no reset
  has followed yet.
\<close>

fun reset_between :: "bool \<Rightarrow> oevent list \<Rightarrow> bool" where
  "reset_between pending [] = True"
| "reset_between pending (Reset # es) = reset_between False es"
| "reset_between pending (Caught e # es) = reset_between True es"
| "reset_between pending (Called p # es) = (\<not> pending \<and> reset_between pending es)"

lemma calls_append [simp]: "calls (xs @ ys) = calls xs + calls ys"
  by (induction xs rule: calls.induct) simp_all

lemma caught_errors_append [simp]:
  "caught_errors (xs @ ys) = caught_errors xs @ caught_errors ys"
  by (induction xs rule: caught_errors.induct) simp_all

definition retryable :: "exn \<Rightarrow> bool" where
  "retryable e = (is_ParseError e \<or> is_ValidationError e)"

text \<open>
  What a loop with \<open>k\<close> turns left adds to the events, for Stages 1 and 2: at most \<open>k\<close>
  calls; at most \<open>k\<close> exceptions caught, all of them \<^verbatim>\<open>ParseError\<close> or
  \<^verbatim>\<open>ValidationError\<close>, and with \<open>k\<close> of them the last one is raised; no reset but as
  the last event.
\<close>

definition loop_log ::
  "nat \<Rightarrow> exn option \<Rightarrow> string \<Rightarrow> (exn + 'r) \<Rightarrow> oevent list \<Rightarrow> bool" where
  "loop_log k last_error msg r new =
     (calls new \<le> k \<and> length (caught_errors new) \<le> k
      \<and> list_all retryable (caught_errors new)
      \<and> (length (caught_errors new) = k \<longrightarrow>
           r = Inl (if caught_errors new = [] then last_or last_error msg
                    else last (caught_errors new)))
      \<and> Reset \<notin> set (butlast new))"

lemma stage1_try_events:
  "stage1_try loads A annotate n response s = (r, t) \<Longrightarrow>
   events t = events s @ (case r of Inl e \<Rightarrow> [] | Inr x \<Rightarrow> [Reset])"
  by (auto simp: stage1_try_def reset_agent_def split: sum.splits prod.splits option.splits)

lemma stage2_try_events:
  "stage2_try loads A fi ei response s = (r, t) \<Longrightarrow>
   events t = events s @ (case r of Inl e \<Rightarrow> [] | Inr x \<Rightarrow> [Reset])"
  by (auto simp: stage2_try_def reset_agent_def split: sum.splits prod.splits)

lemma call_agent_events:
  "call_agent A prompt st = (r, s) \<Longrightarrow> events s = events st @ [Called prompt]"
  by (auto simp: call_agent_def split: prod.splits)

lemma loop_log_retry:
  assumes "loop_log k (Some e) msg r new" and "retryable e"
  shows "loop_log (Suc k) last_error msg r (Called p # Caught e # new)"
  using assms by (cases new) (auto simp: loop_log_def last_or_def split: if_splits)

lemma stage1_attempts_log:
  "\<exists>new. events (snd (stage1_attempts loads A annotate n k prompt last_error st))
           = events st @ new
         \<and> loop_log k last_error ''Stage 1 failed without a captured error''
             (fst (stage1_attempts loads A annotate n k prompt last_error st)) new"
proof (induction k arbitrary: prompt last_error st)
  case 0
  show ?case by (simp add: reset_agent_def loop_log_def)
next
  case (Suc k)
  obtain r s where c: "call_agent A prompt st = (r, s)" by (cases "call_agent A prompt st")
  note ce = call_agent_events [OF c]
  show ?case
  proof (cases r)
    case (Inl e)
    with c ce show ?thesis by (simp add: loop_log_def)
  next
    case (Inr response)
    obtain q t where tr: "stage1_try loads A annotate n response s = (q, t)"
      by (cases "stage1_try loads A annotate n response s")
    note te = stage1_try_events [OF tr]
    show ?thesis
    proof (cases q)
      case (Inr x)
      with c \<open>r = Inr response\<close> tr ce te show ?thesis by (simp add: loop_log_def)
    next
      case (Inl e)
      show ?thesis
      proof (cases "is_ParseError e \<or> is_ValidationError e")
        case False
        with c \<open>r = Inr response\<close> tr ce te Inl show ?thesis by (simp add: loop_log_def)
      next
        case True
        from Suc [of "invalid_prompt e" "Some e" "caught e t"]
        obtain new where
          n1: "events (snd (stage1_attempts loads A annotate n k (invalid_prompt e) (Some e)
                 (caught e t))) = events (caught e t) @ new"
          and n2: "loop_log k (Some e) ''Stage 1 failed without a captured error''
                 (fst (stage1_attempts loads A annotate n k (invalid_prompt e) (Some e)
                    (caught e t))) new"
          by blast
        from True have "retryable e" by (simp add: retryable_def)
        from loop_log_retry [OF n2 this, of last_error prompt] n1
        show ?thesis
          using c \<open>r = Inr response\<close> tr ce te Inl True
          by (simp add: caught_def)
      qed
    qed
  qed
qed

lemma stage2_attempts_log:
  "\<exists>new. events (snd (stage2_attempts loads A fi ei k prompt last_error st))
           = events st @ new
         \<and> loop_log k last_error ''Stage 2 failed without a captured error''
             (fst (stage2_attempts loads A fi ei k prompt last_error st)) new"
proof (induction k arbitrary: prompt last_error st)
  case 0
  show ?case by (simp add: reset_agent_def loop_log_def)
next
  case (Suc k)
  obtain r s where c: "call_agent A prompt st = (r, s)" by (cases "call_agent A prompt st")
  note ce = call_agent_events [OF c]
  show ?case
  proof (cases r)
    case (Inl e)
    with c ce show ?thesis by (simp add: loop_log_def)
  next
    case (Inr response)
    obtain q t where tr: "stage2_try loads A fi ei response s = (q, t)"
      by (cases "stage2_try loads A fi ei response s")
    note te = stage2_try_events [OF tr]
    show ?thesis
    proof (cases q)
      case (Inr x)
      with c \<open>r = Inr response\<close> tr ce te show ?thesis by (simp add: loop_log_def)
    next
      case (Inl e)
      show ?thesis
      proof (cases "is_ParseError e \<or> is_ValidationError e")
        case False
        with c \<open>r = Inr response\<close> tr ce te Inl show ?thesis by (simp add: loop_log_def)
      next
        case True
        from Suc [of "invalid_prompt e" "Some e" "caught e t"]
        obtain new where
          n1: "events (snd (stage2_attempts loads A fi ei k (invalid_prompt e) (Some e)
                 (caught e t))) = events (caught e t) @ new"
          and n2: "loop_log k (Some e) ''Stage 2 failed without a captured error''
                 (fst (stage2_attempts loads A fi ei k (invalid_prompt e) (Some e)
                    (caught e t))) new"
          by blast
        from True have "retryable e" by (simp add: retryable_def)
        from loop_log_retry [OF n2 this, of last_error prompt] n1
        show ?thesis
          using c \<open>r = Inr response\<close> tr ce te Inl True
          by (simp add: caught_def)
      qed
    qed
  qed
qed

text \<open>
  The same for Stage 3: the exceptions caught are the \<^verbatim>\<open>Exception\<close>s, and every turn
  begins with a reset, so that a call never follows a caught exception without a reset
  between them.
\<close>

definition loop_log3 ::
  "nat \<Rightarrow> exn option \<Rightarrow> string \<Rightarrow> (exn + 'r) \<Rightarrow> oevent list \<Rightarrow> bool" where
  "loop_log3 k feedback msg r new =
     (calls new \<le> k \<and> length (caught_errors new) \<le> k
      \<and> list_all is_Exception (caught_errors new)
      \<and> (length (caught_errors new) = k \<longrightarrow>
           r = Inl (if caught_errors new = [] then last_or feedback msg
                    else last (caught_errors new)))
      \<and> reset_between True new \<and> reset_between False new)"

lemma stage3_try_events:
  "stage3_try loads A H registry frames prompt st = (r, t) \<Longrightarrow>
   \<exists>extra. events t = events st @ Reset # Called prompt # extra
          \<and> (extra = [] \<or> extra = [Reset] \<or> extra = [Reset, Reset])"
  by (auto simp: stage3_try_def call_agent_def reset_agent_def vision_tools_set_agent_def
           split: sum.splits prod.splits)

lemma loop_log3_retry:
  assumes "loop_log3 k (Some e) msg r new" and "is_Exception e"
    and "extra = [] \<or> extra = [Reset] \<or> extra = [Reset, Reset]"
  shows "loop_log3 (Suc k) feedback msg r (Reset # Called p # extra @ Caught e # new)"
  using assms by (cases new) (auto simp: loop_log3_def last_or_def split: if_splits)

lemma stage3_attempts_log:
  "\<exists>new. events (snd (stage3_attempts loads A H registry frames k prompt feedback st))
           = events st @ new
         \<and> loop_log3 k feedback ''Stage 3 failed without a captured error''
             (fst (stage3_attempts loads A H registry frames k prompt feedback st)) new"
proof (induction k arbitrary: prompt feedback st)
  case 0
  show ?case by (simp add: reset_agent_def loop_log3_def)
next
  case (Suc k)
  obtain q t where tr: "stage3_try loads A H registry frames prompt st = (q, t)"
    by (cases "stage3_try loads A H registry frames prompt st")
  from stage3_try_events [OF tr] obtain extra where
    te: "events t = events st @ Reset # Called prompt # extra"
    and ex: "extra = [] \<or> extra = [Reset] \<or> extra = [Reset, Reset]"
    by blast
  show ?case
  proof (cases q)
    case (Inr x)
    with tr te ex show ?thesis by (auto simp: loop_log3_def)
  next
    case (Inl e)
    show ?thesis
    proof (cases "is_Exception e")
      case False
      then have "\<not> (is_ParseError e \<or> is_ValidationError e \<or> is_ToolError e \<or> is_Exception e)"
        by (cases e) simp_all
      with tr te ex Inl show ?thesis by (auto simp: loop_log3_def)
    next
      case True
      from Suc [of "failed_prompt e" "Some e" "caught e t"]
      obtain new where
        n1: "events (snd (stage3_attempts loads A H registry frames k (failed_prompt e) (Some e)
               (caught e t))) = events (caught e t) @ new"
        and n2: "loop_log3 k (Some e) ''Stage 3 failed without a captured error''
               (fst (stage3_attempts loads A H registry frames k (failed_prompt e) (Some e)
                  (caught e t))) new"
        by blast
      from loop_log3_retry [OF n2 True ex, of feedback prompt] n1
      show ?thesis
        using tr te Inl True by (simp add: caught_def)
    qed
  qed
qed

subsection \<open>Agents for the examples\<close>

text \<open>
  An agent that always answers \<^verbatim>\<open>nope\<close>, one that always answers the empty program,
  and one whose call always raises; each counts its calls since the last reset. The
  decoder of the first knows no document.
\<close>

definition nope_agent :: "nat agent" where
  "nope_agent = \<lparr>agent_call = (\<lambda>a p. (Inr (Some ''nope''), Suc a)), agent_reset = (\<lambda>a. 0)\<rparr>"

definition no_json :: json_loads where
  "no_json = (\<lambda>s. None)"

definition steps_doc :: string where
  \<open>steps_doc = ''{"steps": []}''\<close>

definition steps_agent :: "nat agent" where
  "steps_agent = \<lparr>agent_call = (\<lambda>a p. (Inr (Some steps_doc), Suc a)), agent_reset = (\<lambda>a. 0)\<rparr>"

definition steps_json :: json_loads where
  "steps_json = loads_only steps_doc (VDict [(''steps'', VList [])])"

definition down_agent :: "nat agent" where
  "down_agent =
     \<lparr>agent_call = (\<lambda>a p. (Inl (PyException ''ConnectionError'' ''down''), Suc a)),
      agent_reset = (\<lambda>a. 0)\<rparr>"

definition keep :: "Stage1Result \<Rightarrow> unit \<Rightarrow> exn option \<times> unit" where
  "keep result f = (None, f)"

definition start1 :: "(nat, unit) ostate" where
  "start1 = \<lparr>agent_st = 0, subject = (), events = []\<rparr>"

definition start2 :: "(nat, frame list) ostate" where
  "start2 = \<lparr>agent_st = 0, subject = [DummyFrame], events = []\<rparr>"

definition start3 :: "(nat, nat) ostate" where
  "start3 = \<lparr>agent_st = 0, subject = 0, events = []\<rparr>"

subsection \<open>Budgets\<close>

lemma loop_log_budget:
  assumes "loop_log k None msg r new" and "0 < k"
  shows "calls new \<le> k \<and> length (caught_errors new) \<le> k
         \<and> (length (caught_errors new) = k \<longrightarrow> r = Inl (last (caught_errors new)))"
  using assms by (auto simp: loop_log_def)

lemma loop_log3_budget:
  assumes "loop_log3 k None msg r new" and "0 < k"
  shows "calls new \<le> k \<and> length (caught_errors new) \<le> k
         \<and> (length (caught_errors new) = k \<longrightarrow> r = Inl (last (caught_errors new)))"
  using assms by (auto simp: loop_log3_def)

lemma stage1_budget:
  "\<exists>new. events (snd (objective_identification loads A annotate n prompt st)) = events st @ new
      \<and> calls new \<le> 3 \<and> length (caught_errors new) \<le> 3
      \<and> (length (caught_errors new) = 3 \<longrightarrow>
           fst (objective_identification loads A annotate n prompt st)
             = Inl (last (caught_errors new)))"
  using stage1_attempts_log [of loads A annotate n 3 prompt None st]
  by (auto simp: objective_identification_def dest!: loop_log_budget)

lemma stage2_budget:
  "\<exists>new. events (snd (structure_abstraction loads A fi ei prompt st)) = events st @ new
      \<and> calls new \<le> 3 \<and> length (caught_errors new) \<le> 3
      \<and> (length (caught_errors new) = 3 \<longrightarrow>
           fst (structure_abstraction loads A fi ei prompt st)
             = Inl (last (caught_errors new)))"
  using stage2_attempts_log [of loads A fi ei 3 prompt None st]
  by (auto simp: structure_abstraction_def dest!: loop_log_budget)

lemma stage3_budget:
  "\<exists>new. events (snd (solution_composition loads A H registry frames prompt st))
        = events st @ new
      \<and> calls new \<le> 4 \<and> length (caught_errors new) \<le> 4
      \<and> (length (caught_errors new) = 4 \<longrightarrow>
           fst (solution_composition loads A H registry frames prompt st)
             = Inl (last (caught_errors new)))"
  using stage3_attempts_log [of loads A H registry frames 4 prompt None st]
  by (auto simp: solution_composition_def dest!: loop_log3_budget)

text \<open>
  C7. Whatever the agent and the decoder, a run of \<^verbatim>\<open>objective_identification\<close> or of
  \<^verbatim>\<open>structure_abstraction\<close> calls the agent at most 3 times and catches at most 3
  exceptions, a run of \<^verbatim>\<open>solution_composition\<close> at most 4 and 4; and when it has caught
  as many exceptions as it has turns, so that every attempt has failed, it raises the
  last one it caught.
\<close>

theorem attempt_budgets:
  "(\<exists>new. events (snd (objective_identification loads A annotate n prompt sa))
        = events sa @ new
      \<and> calls new \<le> 3 \<and> length (caught_errors new) \<le> 3
      \<and> (length (caught_errors new) = 3 \<longrightarrow>
           fst (objective_identification loads A annotate n prompt sa)
             = Inl (last (caught_errors new))))
   \<and> (\<exists>new. events (snd (structure_abstraction loads A fi ei prompt sb)) = events sb @ new
      \<and> calls new \<le> 3 \<and> length (caught_errors new) \<le> 3
      \<and> (length (caught_errors new) = 3 \<longrightarrow>
           fst (structure_abstraction loads A fi ei prompt sb)
             = Inl (last (caught_errors new))))
   \<and> (\<exists>new. events (snd (solution_composition loads A H registry frames prompt sc))
        = events sc @ new
      \<and> calls new \<le> 4 \<and> length (caught_errors new) \<le> 4
      \<and> (length (caught_errors new) = 4 \<longrightarrow>
           fst (solution_composition loads A H registry frames prompt sc)
             = Inl (last (caught_errors new))))"
  using stage1_budget [of loads A annotate n prompt sa]
    stage2_budget [of loads A fi ei prompt sb]
    stage3_budget [of loads A H registry frames prompt sc]
  by blast

text \<open>
  The agent that always answers \<^verbatim>\<open>nope\<close>: each stage calls it as often as it has
  turns, every answer fails to parse, and the \<^verbatim>\<open>ParseError\<close> of the last attempt is
  raised.
\<close>

theorem attempt_budgets_witness:
  "calls (events (snd (objective_identification no_json nope_agent keep 1 ''p'' start1))) = 3
   \<and> fst (objective_identification no_json nope_agent keep 1 ''p'' start1)
       = Inl (last (caught_errors
           (events (snd (objective_identification no_json nope_agent keep 1 ''p'' start1)))))
   \<and> calls (events (snd (structure_abstraction no_json nope_agent {} {} ''p'' start2))) = 3
   \<and> fst (structure_abstraction no_json nope_agent {} {} ''p'' start2)
       = Inl (last (caught_errors
           (events (snd (structure_abstraction no_json nope_agent {} {} ''p'' start2)))))
   \<and> calls (events (snd (solution_composition no_json nope_agent demo_host demo_registry
                demo_frames ''p'' start3))) = 4
   \<and> fst (solution_composition no_json nope_agent demo_host demo_registry
                demo_frames ''p'' start3)
       = Inl (last (caught_errors
           (events (snd (solution_composition no_json nope_agent demo_host demo_registry
                demo_frames ''p'' start3)))))
   \<and> last (caught_errors
           (events (snd (solution_composition no_json nope_agent demo_host demo_registry
                demo_frames ''p'' start3))))
       = ParseError ''No JSON object found in response''"
proof -
  let ?r1 = "objective_identification no_json nope_agent keep 1 ''p'' start1"
  let ?r2 = "structure_abstraction no_json nope_agent {} {} ''p'' start2"
  let ?r3 = "solution_composition no_json nope_agent demo_host demo_registry
               demo_frames ''p'' start3"
  note T = attempt_budgets [where loads = no_json and A = nope_agent and annotate = keep
      and n = 1 and prompt = "''p''" and sa = start1 and sb = start2 and sc = start3
      and fi = "{}" and ei = "{}" and H = demo_host and registry = demo_registry
      and frames = demo_frames]
  have c1: "calls (events (snd ?r1)) = 3" by code_simp
  have c2: "calls (events (snd ?r2)) = 3" by code_simp
  have c3: "calls (events (snd ?r3)) = 4" by code_simp
  have l1: "length (caught_errors (events (snd ?r1))) = 3" by code_simp
  have l2: "length (caught_errors (events (snd ?r2))) = 3" by code_simp
  have l3: "length (caught_errors (events (snd ?r3))) = 4" by code_simp
  have e: "last (caught_errors (events (snd ?r3)))
             = ParseError ''No JSON object found in response''" by code_simp
  have s: "events start1 = []" "events start2 = []" "events start3 = []"
    by (simp_all add: start1_def start2_def start3_def)
  from T l1 have g1: "fst ?r1 = Inl (last (caught_errors (events (snd ?r1))))"
    unfolding s by auto
  from T l2 have g2: "fst ?r2 = Inl (last (caught_errors (events (snd ?r2))))"
    unfolding s by auto
  from T l3 have g3: "fst ?r3 = Inl (last (caught_errors (events (snd ?r3))))"
    unfolding s by auto
  show ?thesis using c1 c2 c3 g1 g2 g3 e by blast
qed

end
